theory Spec2Isabelle
  imports Complex_Main "HOL-Library.Sublist" "HOL-Library.Log_Nat"
begin

chapter \<open>The comment analysis pipeline\<close>

text \<open>
  A shallow embedding of the pipeline of the YouTube comment sentiment analyser:
  fetch, preprocess, classify, summarise, respond. The first part holds the
  embedding, module by module; the second part holds the properties.
\<close>

section \<open>Python values\<close>

subsection \<open>Strings\<close>

text \<open>
  A Python \<^verbatim>\<open>str\<close> is a sequence of Unicode code points and \<^verbatim>\<open>len\<close>
  counts code points, so a string is a list of code points. \<open>asc\<close> reads an
  ASCII literal; a code point beyond ASCII is written as a number.
\<close>

type_synonym pystr = "nat list"

definition asc :: "string \<Rightarrow> pystr" where
  "asc s = map of_char s"

text \<open>\<^verbatim>\<open>d.get(key, default)\<close> on a key that may be absent.\<close>

definition dict_get :: "'a option \<Rightarrow> 'a \<Rightarrow> 'a" where
  "dict_get v d = (case v of None \<Rightarrow> d | Some x \<Rightarrow> x)"

text \<open>
  \<^verbatim>\<open>any(word in text for word in words)\<close>: \<^verbatim>\<open>in\<close> on strings is the
  test for a contiguous substring.
\<close>

definition any_word_in :: "pystr list \<Rightarrow> pystr \<Rightarrow> bool" where
  "any_word_in ws t = list_ex (\<lambda>w. sublist w t) ws"

text \<open>
  \<^verbatim>\<open>str.isspace\<close>, the whitespace of \<^verbatim>\<open>strip\<close>, \<^verbatim>\<open>split\<close> and of
  \<^verbatim>\<open>\s\<close> in a regular expression over \<^verbatim>\<open>str\<close>.
\<close>

definition is_space :: "nat \<Rightarrow> bool" where
  "is_space c \<longleftrightarrow>
     (9 \<le> c \<and> c \<le> 13) \<or> (28 \<le> c \<and> c \<le> 32) \<or> c = 133 \<or> c = 160 \<or> c = 5760 \<or>
     (8192 \<le> c \<and> c \<le> 8202) \<or> c = 8232 \<or> c = 8233 \<or> c = 8239 \<or> c = 8287 \<or>
     c = 12288"

definition strip :: "pystr \<Rightarrow> pystr" where
  "strip t = rev (dropWhile is_space (rev (dropWhile is_space t)))"

text \<open>\<^verbatim>\<open>sep.join(xs)\<close>.\<close>

fun join :: "pystr \<Rightarrow> pystr list \<Rightarrow> pystr" where
  "join sep [] = []"
| "join sep [x] = x"
| "join sep (x # y # ys) = x @ sep @ join sep (y # ys)"

text \<open>A value in a condition: \<^verbatim>\<open>None\<close> and the empty string are false.\<close>

definition truthy :: "pystr option \<Rightarrow> bool" where
  "truthy v = (case v of None \<Rightarrow> False | Some s \<Rightarrow> s \<noteq> [])"

text \<open>
  The Unicode case mapping behind \<^verbatim>\<open>str.lower\<close> is a table of the Python
  runtime; the functions that lowercase take it as their first argument.
\<close>

type_synonym lowering = "pystr \<Rightarrow> pystr"

text \<open>
  \<open>ascii_lower\<close> agrees with \<^verbatim>\<open>str.lower\<close> on ASCII text; the examples
  of the second part run the pipeline with it.
\<close>

definition ascii_lower :: lowering where
  "ascii_lower t = map (\<lambda>c. if 65 \<le> c \<and> c \<le> 90 then c + 32 else c) t"

text \<open>
  \<^verbatim>\<open>random.choice(xs)\<close> returns \<^verbatim>\<open>xs[i]\<close> for an index \<open>i\<close> drawn
  below \<^verbatim>\<open>len(xs)\<close>. The generator is a sequence of draws; a draw \<open>r\<close> is
  reduced modulo the length.
\<close>

type_synonym rand = "nat \<Rightarrow> nat"

definition random_choice :: "nat \<Rightarrow> 'a list \<Rightarrow> 'a" where
  "random_choice r xs = xs ! (r mod length xs)"

definition next_rand :: "rand \<Rightarrow> rand" where
  "next_rand g = (\<lambda>i. g (Suc i))"

subsection \<open>Floats\<close>

text \<open>
  A Python \<^verbatim>\<open>float\<close> is an IEEE 754 binary64 value. The finite ones are
  held as the rationals they denote, and an arithmetic operation is the exact
  operation followed by the rounding \<open>fl\<close> to the nearest binary64 value, ties
  to the even significand: for \<open>x\<close> with \<^verbatim>\<open>2^k <= |x| < 2^(k+1)\<close> the spacing
  of the values is \<^verbatim>\<open>2^(k-52)\<close>, and \<^verbatim>\<open>2^(-1074)\<close> for the subnormals.
  Infinities and NaN are not represented: the scores and percentages of the
  pipeline stay between 0 and 100.
\<close>

type_synonym pyfloat = rat

text \<open>\<open>ilog2 x\<close> is the \<open>k\<close> with \<^verbatim>\<open>2^k <= |x| < 2^(k+1)\<close>, for \<open>x \<noteq> 0\<close>.\<close>

definition ilog2 :: "rat \<Rightarrow> int" where
  "ilog2 x = (let (p, q) = quotient_of \<bar>x\<bar>; d = bitlen p - bitlen q
              in if 2 powi d \<le> \<bar>x\<bar> then d else d - 1)"

definition round_half_even :: "rat \<Rightarrow> int" where
  "round_half_even q =
    (let f = \<lfloor>q\<rfloor>; d = q - of_int f
     in if d < 1 / 2 then f else if 1 / 2 < d then f + 1 else if even f then f else f + 1)"

definition fl :: "rat \<Rightarrow> pyfloat" where
  "fl x = (if x = 0 then 0
           else let e = max (ilog2 x - 52) (- 1074)
                in of_int (round_half_even (x / 2 powi e)) * 2 powi e)"

definition fadd :: "pyfloat \<Rightarrow> pyfloat \<Rightarrow> pyfloat" where
  "fadd a b = fl (a + b)"

definition fsub :: "pyfloat \<Rightarrow> pyfloat \<Rightarrow> pyfloat" where
  "fsub a b = fl (a - b)"

definition fmul :: "pyfloat \<Rightarrow> pyfloat \<Rightarrow> pyfloat" where
  "fmul a b = fl (a * b)"

definition fdiv :: "pyfloat \<Rightarrow> pyfloat \<Rightarrow> pyfloat" where
  "fdiv a b = fl (a / b)"

subsection \<open>Comments\<close>

text \<open>
  The like count is an integer from the structured API and whatever the scraping
  provider gives as \<^verbatim>\<open>votes\<close> from the other path.
\<close>

datatype pyval = IntVal int | StrVal pystr

text \<open>
  A comment is a dictionary that gains keys stage by stage, so a key is absent
  (\<open>None\<close>) or holds a value of the type the data model gives it. The key
  \<^verbatim>\<open>text\<close> is the field \<open>raw_text\<close>.
\<close>

record sentiment_scores =
  positive :: pyfloat
  negative :: pyfloat

record comment =
  raw_text :: "pystr option"
  author :: "pystr option"
  likes :: "pyval option"
  published :: "pystr option"
  original_text :: "pystr option"
  processed_text :: "pystr option"
  sentiment :: "pystr option"
  confidence :: "pyfloat option"
  scores :: "sentiment_scores option"
  response :: "pystr option"

text \<open>
  The exceptions: one raised by an external provider, and the \<^verbatim>\<open>KeyError\<close> of
  a subscript on an absent key.
\<close>

datatype error = ProviderError | KeyError

section \<open>fetch\_comments.py\<close>

subsection \<open>The video identifier\<close>








subsection \<open>The structured API\<close>








subsection \<open>The scraping provider\<close>







subsection \<open>The fetcher\<close>


section \<open>preprocess.py\<close>

text \<open>
  The tables of the Python runtime and of NLTK that the normaliser reads: the
  Unicode alphanumerics (the characters of \<^verbatim>\<open>\w\<close> beside the underscore),
  the Unicode case mapping, the stopword list of a language (\<open>None\<close> when it
  cannot be loaded) and the WordNet lemmatiser (\<open>None\<close> when it raises).
\<close>

record text_env =
  unicode_alnum :: "nat \<Rightarrow> bool"
  unicode_lower :: lowering
  nltk_stopwords :: "pystr \<Rightarrow> pystr list option"
  wordnet_lemmatize :: "pystr \<Rightarrow> pystr option"

subsection \<open>Step 1: URLs\<close>

text \<open>
  The pattern is \<^verbatim>\<open>http[s]?://\<close> followed by one or more characters of the
  alternatives: a letter, a digit, the class \<^verbatim>\<open>[$-_@.&+]\<close> (whose \<^verbatim>\<open>$-_\<close> is
  the range of the code points 36 to 95), the class of \<^verbatim>\<open>!\<close>, \<^verbatim>\<open>*\<close>, \<^verbatim>\<open>$\<close>
  and the comma, or a percent escape (a percent sign is in the range already).
\<close>

definition url_char :: "nat \<Rightarrow> bool" where
  "url_char c \<longleftrightarrow>
     (97 \<le> c \<and> c \<le> 122) \<or> (65 \<le> c \<and> c \<le> 90) \<or> (48 \<le> c \<and> c \<le> 57) \<or>
     (36 \<le> c \<and> c \<le> 95) \<or> c = 33 \<or> c = 42 \<or> c = 36 \<or> c = 44"

text \<open>The text after a match of the pattern at the start of \<open>t\<close>, if there is one.\<close>

definition url_match :: "pystr \<Rightarrow> pystr option" where
  "url_match t =
    (let after = (if prefix (asc ''https://'') t then Some (drop 8 t)
                  else if prefix (asc ''http://'') t then Some (drop 7 t)
                  else None)
     in case after of
          None \<Rightarrow> None
        | Some r \<Rightarrow> (if takeWhile url_char r = [] then None else Some (dropWhile url_char r)))"

lemma url_match_shorter: "url_match t = Some r \<Longrightarrow> length r < length t"
  by (auto simp: url_match_def Let_def prefix_def asc_def less_Suc_eq_le
      intro: le_trans[OF length_dropWhile_le] split: if_splits option.splits)

function remove_urls :: "pystr \<Rightarrow> pystr" where
  "remove_urls [] = []"
| "remove_urls (c # cs) =
    (case url_match (c # cs) of
       Some r \<Rightarrow> remove_urls r
     | None \<Rightarrow> c # remove_urls cs)"
  by pat_completeness auto
termination
  by (relation "measure length") (auto dest: url_match_shorter)

subsection \<open>Step 2: HTML tags\<close>

text \<open>
  The pattern \<^verbatim>\<open><.*?>\<close>: from a \<^verbatim>\<open><\<close> to the nearest \<^verbatim>\<open>>\<close> after it,
  with no line feed between them (the dot matches no line feed).
\<close>

definition html_match :: "pystr \<Rightarrow> pystr option" where
  "html_match t =
    (case t of
       [] \<Rightarrow> None
     | c # cs \<Rightarrow>
         (if c = 60 then
            (case dropWhile (\<lambda>x. x \<noteq> 62 \<and> x \<noteq> 10) cs of
               [] \<Rightarrow> None
             | d # r \<Rightarrow> (if d = 62 then Some r else None))
          else None))"

lemma html_match_shorter: "html_match t = Some r \<Longrightarrow> length r < length t"
proof -
  assume m: "html_match t = Some r"
  then obtain c cs d where t: "t = c # cs"
    and d: "dropWhile (\<lambda>x. x \<noteq> 62 \<and> x \<noteq> 10) cs = d # r"
    by (auto simp: html_match_def split: list.splits if_splits)
  have "length (d # r) \<le> length cs"
    unfolding d[symmetric] by (rule length_dropWhile_le)
  then show ?thesis using t by simp
qed

function remove_html_tags :: "pystr \<Rightarrow> pystr" where
  "remove_html_tags [] = []"
| "remove_html_tags (c # cs) =
    (case html_match (c # cs) of
       Some r \<Rightarrow> remove_html_tags r
     | None \<Rightarrow> c # remove_html_tags cs)"
  by pat_completeness auto
termination
  by (relation "measure length") (auto dest: html_match_shorter)

subsection \<open>Step 3: emoji\<close>

definition is_emoji :: "nat \<Rightarrow> bool" where
  "is_emoji c \<longleftrightarrow>
     (0x1F600 \<le> c \<and> c \<le> 0x1F64F) \<or> (0x1F300 \<le> c \<and> c \<le> 0x1F5FF) \<or>
     (0x1F680 \<le> c \<and> c \<le> 0x1F6FF) \<or> (0x1F1E0 \<le> c \<and> c \<le> 0x1F1FF) \<or>
     (0x2702 \<le> c \<and> c \<le> 0x27B0) \<or> (0x24C2 \<le> c \<and> c \<le> 0x1F251)"

definition remove_emojis :: "pystr \<Rightarrow> pystr" where
  "remove_emojis t = filter (\<lambda>c. \<not> is_emoji c) t"

subsection \<open>Step 4: special characters and whitespace\<close>

text \<open>
  The class \<^verbatim>\<open>[^\w\s.,!?-]\<close> is removed: what stays is a word character (an
  alphanumeric or the underscore), whitespace, or one of \<^verbatim>\<open>.,!?-\<close>.
\<close>

definition kept_char :: "text_env \<Rightarrow> nat \<Rightarrow> bool" where
  "kept_char env c \<longleftrightarrow>
     unicode_alnum env c \<or> c = 95 \<or> is_space c \<or>
     c = 46 \<or> c = 44 \<or> c = 33 \<or> c = 63 \<or> c = 45"

text \<open>\<^verbatim>\<open>re.sub(r'\s+', ' ', text)\<close>: every run of whitespace becomes one space.\<close>

function collapse_ws :: "pystr \<Rightarrow> pystr" where
  "collapse_ws [] = []"
| "collapse_ws (c # cs) =
    (if is_space c then 32 # collapse_ws (dropWhile is_space cs) else c # collapse_ws cs)"
  by pat_completeness auto
termination
  by (relation "measure length") (auto simp: less_Suc_eq_le length_dropWhile_le)

definition remove_special_characters :: "text_env \<Rightarrow> pystr \<Rightarrow> pystr" where
  "remove_special_characters env t = strip (collapse_ws (filter (kept_char env) t))"

subsection \<open>Steps 6 and 7: stopwords and lemmatisation\<close>

text \<open>\<^verbatim>\<open>text.split()\<close>: the maximal runs of characters that are not whitespace.\<close>

function split_ws :: "pystr \<Rightarrow> pystr list" where
  "split_ws [] = []"
| "split_ws (c # cs) =
    (if is_space c then split_ws cs
     else (c # takeWhile (\<lambda>x. \<not> is_space x) cs) # split_ws (dropWhile (\<lambda>x. \<not> is_space x) cs))"
  by pat_completeness auto
termination
  by (relation "measure length") (auto simp: less_Suc_eq_le length_dropWhile_le)

text \<open>
  \<^verbatim>\<open>remove_stopwords_text(text)\<close> with its default languages; a language whose
  list cannot be loaded is skipped.
\<close>

definition load_stop_words :: "text_env \<Rightarrow> pystr list \<Rightarrow> pystr list" where
  "load_stop_words env languages =
     concat (map (\<lambda>l. case nltk_stopwords env l of None \<Rightarrow> [] | Some ws \<Rightarrow> ws) languages)"

definition remove_stopwords_text :: "text_env \<Rightarrow> pystr \<Rightarrow> pystr" where
  "remove_stopwords_text env t =
    (let stop_words = load_stop_words env [asc ''english'', asc ''french''];
         filtered_words = filter (\<lambda>w. unicode_lower env w \<notin> set stop_words) (split_ws t)
     in join [32] filtered_words)"

text \<open>
  \<^verbatim>\<open>lemmatize_text(text)\<close>: when the lemmatiser raises on a word, the handler
  returns the lowercased text.
\<close>

definition lemmatize_text :: "text_env \<Rightarrow> pystr \<Rightarrow> pystr" where
  "lemmatize_text env t =
    (let lemmatized_words = map (\<lambda>w. wordnet_lemmatize env (unicode_lower env w)) (split_ws t)
     in if list_all (\<lambda>l. l \<noteq> None) lemmatized_words
        then join [32] (map the lemmatized_words)
        else unicode_lower env t)"

subsection \<open>The normaliser\<close>

text \<open>
  \<^verbatim>\<open>preprocess_comment(text, apply_lemmatization)\<close>. The argument is a string
  by its type, so of the first test only the test for the empty string is left.
\<close>

definition preprocess_comment :: "text_env \<Rightarrow> pystr \<Rightarrow> bool \<Rightarrow> pystr" where
  "preprocess_comment env t0 apply_lemmatization =
    (if t0 = [] then []
     else let t1 = remove_urls t0;
              t2 = remove_html_tags t1;
              t3 = remove_emojis t2;
              t4 = remove_special_characters env t3;
              t5 = unicode_lower env t4;
              t6 = remove_stopwords_text env t5;
              t7 = (if apply_lemmatization then lemmatize_text env t6 else t6)
          in strip t7)"

text \<open>
  \<^verbatim>\<open>preprocess_comments(comments, apply_lemmatization)\<close>, as the sequence of
  the copies it returns.
\<close>

fun preprocess_comments :: "text_env \<Rightarrow> comment list \<Rightarrow> bool \<Rightarrow> comment list" where
  "preprocess_comments env [] apply_lemmatization = []"
| "preprocess_comments env (c # cs) apply_lemmatization =
    (let original = dict_get (raw_text c) [];
         processed = preprocess_comment env original apply_lemmatization;
         processed_comment = c\<lparr>original_text := Some original, processed_text := Some processed\<rparr>
     in if length (strip processed) > 3
        then processed_comment # preprocess_comments env cs apply_lemmatization
        else preprocess_comments env cs apply_lemmatization)"

text \<open>
  \<^verbatim>\<open>s[:n]\<close>: the first \<open>n\<close> characters, and for a negative \<open>n\<close> all but the
  last \<open>-n\<close>.
\<close>

definition slice_to :: "int \<Rightarrow> 'a list \<Rightarrow> 'a list" where
  "slice_to n xs = (if 0 \<le> n then take (nat n) xs else take (length xs - nat (- n)) xs)"

definition truncate_field :: "int \<Rightarrow> pystr option \<Rightarrow> error + pystr option" where
  "truncate_field max_length v =
    (if int (length (dict_get v [])) > max_length
     then (case v of
             None \<Rightarrow> Inl KeyError
           | Some t \<Rightarrow> Inr (Some (slice_to max_length t @ asc ''...'')))
     else Inr v)"

text \<open>
  \<^verbatim>\<open>truncate_long_comments(comments, max_length)\<close>, as the copies it returns.
  With a negative \<open>max_length\<close> the subscript of an absent key raises.
\<close>

fun truncate_long_comments :: "comment list \<Rightarrow> int \<Rightarrow> error + comment list" where
  "truncate_long_comments [] max_length = Inr []"
| "truncate_long_comments (c # cs) max_length =
    (case truncate_field max_length (original_text c) of
       Inl e \<Rightarrow> Inl e
     | Inr ot \<Rightarrow>
        (case truncate_field max_length (processed_text c) of
           Inl e \<Rightarrow> Inl e
         | Inr pt \<Rightarrow>
            (case truncate_long_comments cs max_length of
               Inl e \<Rightarrow> Inl e
             | Inr rest \<Rightarrow> Inr (c\<lparr>original_text := ot, processed_text := pt\<rparr> # rest))))"

section \<open>sentiment\_analysis.py\<close>

subsection \<open>The sentiment model\<close>

text \<open>
  A prediction of the model is a raw label and a raw score. The pipeline object
  takes a batch of texts and returns one prediction per text, or raises.
  Building the pipeline may raise as well: \<open>loader n\<close> is the outcome of the
  \<open>n\<close>-th attempt.
\<close>

record prediction =
  label :: pystr
  score :: pyfloat

type_synonym sentiment_pipeline = "pystr list \<Rightarrow> error + prediction list"

type_synonym model_loader = "nat \<Rightarrow> error + sentiment_pipeline"

text \<open>
  \<^verbatim>\<open>load_sentiment_model()\<close>: the attempts 1, 2, 3 in turn; the first pipeline
  that is built is returned, and \<open>None\<close> after the third failure. The pauses
  between the attempts and the cache of the result are left out.
\<close>

fun load_attempts :: "model_loader \<Rightarrow> nat \<Rightarrow> nat list \<Rightarrow> sentiment_pipeline option" where
  "load_attempts loader max_attempts [] = None"
| "load_attempts loader max_attempts (attempt # rest) =
    (case loader attempt of
       Inr sentiment_pipeline \<Rightarrow> Some sentiment_pipeline
     | Inl e \<Rightarrow> (if attempt < max_attempts then load_attempts loader max_attempts rest
                else None))"

definition load_sentiment_model :: "model_loader \<Rightarrow> sentiment_pipeline option" where
  "load_sentiment_model loader = load_attempts loader 3 [1 ..< 3 + 1]"

subsection \<open>From a prediction to a result\<close>

definition map_sentiment_label :: "pystr \<Rightarrow> pyfloat \<Rightarrow> sentiment_scores" where
  "map_sentiment_label l s =
    (if l = asc ''POSITIVE'' then \<lparr>positive = s, negative = fsub 1 s\<rparr>
     else if l = asc ''NEGATIVE'' then \<lparr>positive = fsub 1 s, negative = s\<rparr>
     else \<lparr>positive = fl (6 / 10), negative = fl (4 / 10)\<rparr>)"

record sentiment_result =
  result_sentiment :: pystr
  result_confidence :: pyfloat
  result_scores :: sentiment_scores

text \<open>The body of the loop over the predictions of a batch.\<close>

definition prediction_result :: "prediction \<Rightarrow> sentiment_result" where
  "prediction_result p =
    (let sentiment_scores = map_sentiment_label (label p) (score p);
         final_sentiment = (if positive sentiment_scores > negative sentiment_scores
                            then asc ''positive'' else asc ''negative'')
     in \<lparr>result_sentiment = final_sentiment, result_confidence = score p,
         result_scores = sentiment_scores\<rparr>)"

text \<open>The result every text of a failed batch gets.\<close>

definition default_result :: sentiment_result where
  "default_result =
     \<lparr>result_sentiment = asc ''positive'', result_confidence = fl (1 / 2),
      result_scores = \<lparr>positive = fl (1 / 2), negative = fl (1 / 2)\<rparr>\<rparr>"

text \<open>
  The loop of \<^verbatim>\<open>classify_sentiment_batch\<close> over the batches of 32 texts. A
  prediction is a label and a score by its type, so only the call of the
  pipeline can raise.
\<close>

function classify_batches :: "sentiment_pipeline \<Rightarrow> pystr list \<Rightarrow> sentiment_result list" where
  "classify_batches sentiment_pipeline texts =
    (if texts = [] then []
     else let batch_texts = take 32 texts
          in (case sentiment_pipeline batch_texts of
                Inr batch_predictions \<Rightarrow> map prediction_result batch_predictions
              | Inl e \<Rightarrow> map (\<lambda>_. default_result) batch_texts)
             @ classify_batches sentiment_pipeline (drop 32 texts))"
  by pat_completeness auto
termination
  by (relation "measure (\<lambda>(p, texts). length texts)") auto

definition classify_sentiment_batch ::
    "pystr list \<Rightarrow> sentiment_pipeline option \<Rightarrow> sentiment_result list" where
  "classify_sentiment_batch texts sentiment_pipeline =
    (case sentiment_pipeline of
       None \<Rightarrow> []
     | Some p \<Rightarrow> classify_batches p texts)"

subsection \<open>The classifier\<close>

text \<open>The text of a comment that is handed to the model.\<close>

definition text_to_analyze :: "comment \<Rightarrow> pystr" where
  "text_to_analyze c =
    (let t = dict_get (processed_text c) (dict_get (original_text c) [])
     in if t \<noteq> [] \<and> length (strip t) > 0
        then (if length t > 512 then take 512 t else t)
        else asc ''okay comment'')"

definition with_result :: "comment \<Rightarrow> sentiment_result \<Rightarrow> comment" where
  "with_result c r =
     c\<lparr>sentiment := Some (result_sentiment r), confidence := Some (result_confidence r),
       scores := Some (result_scores r)\<rparr>"

text \<open>
  The last loop of \<^verbatim>\<open>analyze_sentiment\<close>: the \<open>i\<close>-th copy takes the \<open>i\<close>-th
  result, and the default result when there are fewer results than comments.
\<close>

fun combine_results :: "comment list \<Rightarrow> sentiment_result list \<Rightarrow> comment list" where
  "combine_results [] rs = []"
| "combine_results (c # cs) [] = with_result c default_result # combine_results cs []"
| "combine_results (c # cs) (r # rs) = with_result c r # combine_results cs rs"

text \<open>
  \<^verbatim>\<open>analyze_sentiment(comments)\<close>, as the sequence of records it returns. When
  the model cannot be loaded it returns its argument.
\<close>

definition analyze_sentiment :: "model_loader \<Rightarrow> comment list \<Rightarrow> comment list" where
  "analyze_sentiment loader comments =
    (if comments = [] then []
     else case load_sentiment_model loader of
            None \<Rightarrow> comments
          | Some sentiment_pipeline \<Rightarrow>
              (let texts_to_analyze = map text_to_analyze comments;
                   sentiment_results = classify_sentiment_batch texts_to_analyze
                                         (Some sentiment_pipeline)
               in combine_results comments sentiment_results))"

section \<open>The LLM provider\<close>

text \<open>
  \<^verbatim>\<open>Groq(api_key=...)\<close> builds a client, or raises. On a client,
  \<^verbatim>\<open>chat.completions.create(...)\<close> followed by \<^verbatim>\<open>.choices[0].message.content\<close>
  yields the content of the first choice, or raises.
\<close>

record chat_request =
  model_name :: pystr
  prompt :: pystr
  max_tokens :: nat
  temperature :: rat

type_synonym client = "chat_request \<Rightarrow> error + pystr"

type_synonym llm = "pystr \<Rightarrow> error + client"

section \<open>summarizer.py\<close>

subsection \<open>Formatting numbers\<close>

text \<open>\<^verbatim>\<open>str(n)\<close> of a natural number: its decimal digits.\<close>

function digits :: "nat \<Rightarrow> pystr" where
  "digits n = (if n < 10 then [48 + n] else digits (n div 10) @ [48 + n mod 10])"
  by pat_completeness auto
termination
  by (relation "measure id") auto

text \<open>
  The format \<^verbatim>\<open>.1f\<close> of a float: the exact value is rounded to one decimal,
  ties to the even digit.
\<close>

definition format_1f :: "pyfloat \<Rightarrow> pystr" where
  "format_1f x =
    (let n = nat (round_half_even (\<bar>x\<bar> * 10))
     in (if x < 0 then [45] else []) @ digits (n div 10) @ [46] @ digits (n mod 10))"

subsection \<open>The summary of the LLM provider\<close>

text \<open>The list \<^verbatim>\<open>comments_text\<close> that \<^verbatim>\<open>summarize_with_groq\<close> builds.\<close>

definition comments_text :: "comment list \<Rightarrow> pystr list" where
  "comments_text comments =
     map (\<lambda>t. asc ''- '' @ take 200 t)
       (filter (\<lambda>t. t \<noteq> [] \<and> length (strip t) > 10)
          (map (\<lambda>c. dict_get (original_text c) (dict_get (raw_text c) [])) (take 50 comments)))"

definition summary_prompt :: "pystr list \<Rightarrow> pystr" where
  "summary_prompt lines = join [10]
    [[],
     asc ''        Please analyze the following YouTube comments and provide a concise summary of the main points, themes, and opinions expressed by viewers. Focus on the most common topics and sentiments.'',
     [],
     asc ''        Comments:'',
     asc ''        '' @ join [10] (take 30 lines) @ asc ''  # Limit to avoid token limits'',
     [],
     asc ''        Please provide a summary in 3-4 sentences covering:'',
     asc ''        1. Main topics discussed'',
     asc ''        2. Overall sentiment/tone'',
     asc ''        3. Key concerns or praise mentioned'',
     asc ''        4. Any notable patterns or trends'',
     [],
     asc ''        Summary:'',
     asc ''        '']"

definition summary_request :: "comment list \<Rightarrow> chat_request" where
  "summary_request comments =
     \<lparr>model_name = asc ''llama-3.1-8b-instant'',
      prompt = summary_prompt (comments_text comments), max_tokens = 300,
      temperature = 3 / 10\<rparr>"

text \<open>
  \<^verbatim>\<open>summarize_with_groq(comments, api_key)\<close>: \<open>None\<close> when building the client
  or the request raises. Without a meaningful comment no request is made.
\<close>

definition summarize_with_groq :: "llm \<Rightarrow> comment list \<Rightarrow> pystr \<Rightarrow> pystr option" where
  "summarize_with_groq provider comments key =
    (case provider key of
       Inl e \<Rightarrow> None
     | Inr client \<Rightarrow>
         if comments_text comments = []
         then Some (asc ''No meaningful comments found to summarize.'')
         else case client (summary_request comments) of
                Inr content \<Rightarrow> Some (strip content)
              | Inl e \<Rightarrow> None)"

subsection \<open>The local summary\<close>

record sentiment_counts =
  positive_count :: nat
  negative_count :: nat
  neutral_count :: nat

text \<open>
  The loop \<^verbatim>\<open>sentiment_counts[sentiment] += 1\<close>: a sentiment that is none of the
  three keys raises \<^verbatim>\<open>KeyError\<close>.
\<close>

fun count_sentiments :: "comment list \<Rightarrow> sentiment_counts \<Rightarrow> error + sentiment_counts" where
  "count_sentiments [] counts = Inr counts"
| "count_sentiments (c # cs) counts =
    (let s = dict_get (sentiment c) (asc ''neutral'')
     in if s = asc ''positive''
        then count_sentiments cs (counts\<lparr>positive_count := positive_count counts + 1\<rparr>)
        else if s = asc ''negative''
        then count_sentiments cs (counts\<lparr>negative_count := negative_count counts + 1\<rparr>)
        else if s = asc ''neutral''
        then count_sentiments cs (counts\<lparr>neutral_count := neutral_count counts + 1\<rparr>)
        else Inl KeyError)"

text \<open>
  \<^verbatim>\<open>word_freq[word] = word_freq.get(word, 0) + 1\<close> on a dictionary, which keeps
  its keys in the order of their first insertion.
\<close>

fun bump :: "pystr \<Rightarrow> (pystr \<times> nat) list \<Rightarrow> (pystr \<times> nat) list" where
  "bump w [] = [(w, 1)]"
| "bump w ((k, n) # rest) = (if k = w then (k, n + 1) # rest else (k, n) # bump w rest)"

definition word_frequencies :: "pystr list \<Rightarrow> (pystr \<times> nat) list" where
  "word_frequencies words = foldl (\<lambda>word_freq w. if length w > 3 then bump w word_freq else word_freq) [] words"

text \<open>
  \<^verbatim>\<open>max(xs, key=f)\<close> on a non-empty list: the first element with the greatest
  key.
\<close>

definition max_by :: "('a \<Rightarrow> nat) \<Rightarrow> 'a \<Rightarrow> 'a list \<Rightarrow> 'a" where
  "max_by f x xs = foldl (\<lambda>best y. if f y > f best then y else best) x xs"

definition local_summary :: "lowering \<Rightarrow> comment list \<Rightarrow> sentiment_counts \<Rightarrow> pystr" where
  "local_summary lower comments counts =
    (let total_comments = length comments;
         all_text = join [32] (map (\<lambda>c. dict_get (processed_text c) (dict_get (original_text c) []))
                                   (take 30 comments));
         words = split_ws (lower all_text);
         word_freq = word_frequencies words;
         top_words = take 10 (sort_key (\<lambda>(w, n). - int n) word_freq);
         common_topics = map fst (filter (\<lambda>(w, n). n > 2) top_words);
         dominant_sentiment =
           fst (max_by snd (asc ''positive'', positive_count counts)
                  [(asc ''negative'', negative_count counts),
                   (asc ''neutral'', neutral_count counts)]);
         dominant_count =
           (if dominant_sentiment = asc ''positive'' then positive_count counts
            else if dominant_sentiment = asc ''negative'' then negative_count counts
            else neutral_count counts);
         sentiment_percentage = fmul (fdiv (of_nat dominant_count) (of_nat total_comments)) 100
     in asc ''Analysis of '' @ digits total_comments @ asc '' comments shows a predominantly ''
        @ dominant_sentiment @ asc '' sentiment ('' @ format_1f sentiment_percentage @ asc ''%). ''
        @ (if common_topics \<noteq> []
           then asc ''Common topics discussed include: '' @ join (asc '', '') (take 5 common_topics)
                @ asc ''. ''
           else [])
        @ asc ''The comments contain '' @ digits (positive_count counts) @ asc '' positive, ''
        @ digits (negative_count counts) @ asc '' negative, and ''
        @ digits (neutral_count counts) @ asc '' neutral responses.'')"

text \<open>
  \<^verbatim>\<open>summarize_locally(comments)\<close>: the handler answers the \<^verbatim>\<open>KeyError\<close> of the
  counting loop; nothing else in the body raises on records of this type.
\<close>

definition summarize_locally :: "lowering \<Rightarrow> comment list \<Rightarrow> pystr" where
  "summarize_locally lower comments =
    (if comments = [] then asc ''No comments available for summarization.''
     else case count_sentiments comments
                 \<lparr>positive_count = 0, negative_count = 0, neutral_count = 0\<rparr> of
            Inl e \<Rightarrow> asc ''Unable to generate summary due to processing error.''
          | Inr counts \<Rightarrow> local_summary lower comments counts)"

subsection \<open>The summariser\<close>

definition generate_summary :: "llm \<Rightarrow> lowering \<Rightarrow> comment list \<Rightarrow> pystr option \<Rightarrow> pystr" where
  "generate_summary provider lower comments groq_api_key =
    (if comments = [] then asc ''No comments available for summarization.''
     else if truthy groq_api_key \<and> strip (the groq_api_key) \<noteq> []
     then (case summarize_with_groq provider comments (strip (the groq_api_key)) of
             Some groq_summary \<Rightarrow>
               (if groq_summary \<noteq> [] then groq_summary else summarize_locally lower comments)
           | None \<Rightarrow> summarize_locally lower comments)
     else summarize_locally lower comments)"

section \<open>comment\_responder.py\<close>

subsection \<open>The template fallback\<close>

definition appreciation_templates :: "pystr \<Rightarrow> pystr list" where
  "appreciation_templates a =
    [asc ''Thank you so much '' @ a @ asc ''! '' @ [0x1F60A],
     asc ''Really appreciate it '' @ a @ asc ''! '' @ [0x2764, 0xFE0F],
     asc ''Thanks '' @ a @ asc '', that means a lot!'',
     asc ''So glad you enjoyed it '' @ a @ asc ''! '' @ [0x1F64F]]"

definition kind_words_templates :: "pystr \<Rightarrow> pystr list" where
  "kind_words_templates a =
    [asc ''Thank you '' @ a @ asc ''! '' @ [0x1F64C],
     asc ''Appreciate the kind words '' @ a @ asc ''!'',
     asc ''Thanks for watching '' @ a @ asc ''! '' @ [0x1F60A]]"

definition support_templates :: "pystr \<Rightarrow> pystr list" where
  "support_templates a =
    [asc ''Thanks '' @ a @ asc ''! '' @ [0x1F60A],
     asc ''Appreciate you '' @ a @ asc ''! '' @ [0x2764, 0xFE0F],
     asc ''Thank you for the support '' @ a @ asc ''!'']"

definition improvement_templates :: "pystr \<Rightarrow> pystr list" where
  "improvement_templates a =
    [asc ''Sorry to hear that '' @ a @ asc ''. I'll work on improving! '' @ [0x1F64F],
     asc ''Thanks for the feedback '' @ a @ asc '', I appreciate your honesty.'',
     asc ''I understand '' @ a @ asc '', I'll keep working to do better!'']"

definition clarity_templates :: "pystr \<Rightarrow> pystr list" where
  "clarity_templates a =
    [asc ''Thanks for pointing that out '' @ a @ asc ''! I'll try to explain better next time.'',
     asc ''Good feedback '' @ a @ asc '', I'll work on making it clearer!'',
     asc ''Appreciate the input '' @ a @ asc '', clarity is important!'']"

definition feedback_templates :: "pystr \<Rightarrow> pystr list" where
  "feedback_templates a =
    [asc ''Thanks for the feedback '' @ a @ asc ''! '' @ [0x1F64F],
     asc ''I appreciate your perspective '' @ a @ asc ''.'',
     asc ''Thank you for sharing your thoughts '' @ a @ asc ''!'']"

definition neutral_templates :: "pystr \<Rightarrow> pystr list" where
  "neutral_templates a =
    [asc ''Thanks for watching '' @ a @ asc ''! '' @ [0x1F60A],
     asc ''Appreciate the comment '' @ a @ asc ''!'',
     asc ''Thanks for being here '' @ a @ asc ''! '' @ [0x1F64F],
     asc ''Great to see you '' @ a @ asc ''!'']"

text \<open>
  \<^verbatim>\<open>_generate_fallback_response(comment)\<close>: the list \<^verbatim>\<open>responses\<close> the
  source builds from the sentiment and the cue words, then one random pick.
\<close>

definition fallback_responses :: "lowering \<Rightarrow> comment \<Rightarrow> pystr list" where
  "fallback_responses lower c =
    (let a = dict_get (author c) (asc ''there'');
         s = dict_get (sentiment c) (asc ''neutral'');
         t = lower (dict_get (original_text c) [])
     in if s = asc ''positive'' then
          (if any_word_in [asc ''thank'', asc ''thanks'', asc ''great'', asc ''awesome'',
                           asc ''love'', asc ''amazing''] t
           then appreciation_templates a
           else if any_word_in [asc ''good'', asc ''nice'', asc ''well done'',
                                asc ''excellent''] t
           then kind_words_templates a
           else support_templates a)
        else if s = asc ''negative'' then
          (if any_word_in [asc ''bad'', asc ''terrible'', asc ''hate'', asc ''worst''] t
           then improvement_templates a
           else if any_word_in [asc ''confusing'', asc ''unclear'', asc ''hard''] t
           then clarity_templates a
           else feedback_templates a)
        else neutral_templates a)"

definition generate_fallback_response :: "lowering \<Rightarrow> nat \<Rightarrow> comment \<Rightarrow> pystr" where
  "generate_fallback_response lower r c = random_choice r (fallback_responses lower c)"

subsection \<open>The response of the LLM provider\<close>

definition response_prompt :: "pystr \<Rightarrow> pystr \<Rightarrow> pystr \<Rightarrow> pystr" where
  "response_prompt a t s = join [10]
    [[],
     asc ''        You are a friendly content creator responding to YouTube comments. '',
     asc ''        Generate a brief, personalized response (max 20 words) to this comment:'',
     asc ''        '',
     asc ''        Author: '' @ a,
     asc ''        Comment: '' @ [34] @ t @ [34],
     asc ''        Sentiment: '' @ s,
     asc ''        '',
     asc ''        Guidelines:'',
     asc ''        - Be warm and engaging'',
     asc ''        - Address the commenter by name when appropriate'',
     asc ''        - Match the tone of the comment'',
     asc ''        - Keep it conversational and authentic'',
     asc ''        - For positive comments: show appreciation'',
     asc ''        - For negative comments: be understanding and constructive'',
     asc ''        '',
     asc ''        Response:'',
     asc ''        '']"

definition response_request :: "comment \<Rightarrow> chat_request" where
  "response_request c =
     \<lparr>model_name = asc ''llama-3.1-8b-instant'',
      prompt = response_prompt (dict_get (author c) (asc ''there''))
                 (dict_get (original_text c) []) (dict_get (sentiment c) (asc ''neutral'')),
      max_tokens = 50, temperature = 7 / 10\<rparr>"

text \<open>
  \<^verbatim>\<open>_generate_ai_response(comment, groq_api_key)\<close>: an exception of building
  the client or of the request is caught and answered by the template fallback,
  which then takes the next draw of the generator.
\<close>

definition generate_ai_response ::
    "llm \<Rightarrow> lowering \<Rightarrow> rand \<Rightarrow> comment \<Rightarrow> pystr \<Rightarrow> pystr \<times> rand" where
  "generate_ai_response provider lower g c key =
    (case provider key of
       Inl e \<Rightarrow> (generate_fallback_response lower (g 0) c, next_rand g)
     | Inr client \<Rightarrow>
         (case client (response_request c) of
            Inr content \<Rightarrow> (strip content, g)
          | Inl e \<Rightarrow> (generate_fallback_response lower (g 0) c, next_rand g)))"

subsection \<open>The response generator\<close>

text \<open>
  \<^verbatim>\<open>generate_comment_responses(comments, groq_api_key)\<close>, as the sequence of
  records it returns. Neither branch of the loop body raises on records of
  this type, so the handler of the loop body is never entered.
\<close>

fun respond_each :: "llm \<Rightarrow> lowering \<Rightarrow> pystr option \<Rightarrow> rand \<Rightarrow> comment list \<Rightarrow> comment list" where
  "respond_each provider lower key g [] = []"
| "respond_each provider lower key g (c # cs) =
    (let (r, g') = (if truthy key then generate_ai_response provider lower g c (the key)
                    else (generate_fallback_response lower (g 0) c, next_rand g))
     in c\<lparr>response := Some r\<rparr> # respond_each provider lower key g' cs)"

definition generate_comment_responses ::
    "llm \<Rightarrow> lowering \<Rightarrow> rand \<Rightarrow> comment list \<Rightarrow> pystr option \<Rightarrow> comment list" where
  "generate_comment_responses provider lower g comments groq_api_key =
    (if comments = [] then [] else respond_each provider lower groq_api_key g comments)"

subsection \<open>The response counts of the report\<close>

record response_summary =
  total_responses :: int
  ai_responses :: int
  template_responses :: int

text \<open>\<^verbatim>\<open>get_response_summary(comments)\<close>; \<open>None\<close> is the empty dictionary.\<close>

definition get_response_summary :: "comment list \<Rightarrow> response_summary option" where
  "get_response_summary comments =
    (if comments = [] then None
     else let total = int (length (filter (\<lambda>c. truthy (response c)) comments));
              ai = int (length (filter (\<lambda>c. truthy (response c) \<and>
                                   length (dict_get (response c) []) > 30) comments))
          in Some \<lparr>total_responses = total, ai_responses = ai,
                    template_responses = total - ai\<rparr>)"

section \<open>Object identity\<close>

text \<open>
  The stages receive and return lists of references to dictionaries. To tell a
  stage that returns copies from one that writes into the dictionaries it is
  given, the dictionaries live in a store: a reference is a position of the
  store, \<^verbatim>\<open>comment.copy()\<close> and a dictionary display allocate at its end, and
  \<^verbatim>\<open>comment[key] = value\<close> updates the store at the reference. A stage takes
  the store and the list of its argument and returns the store and the list
  of its result. The functions of the sections above give the records; these
  give where the records are.
\<close>

type_synonym ref = nat

type_synonym store = "comment list"

definition deref :: "store \<Rightarrow> ref \<Rightarrow> comment" where
  "deref \<sigma> r = \<sigma> ! r"

text \<open>Allocates the records \<open>cs\<close> and returns their references, in order.\<close>

definition alloc :: "store \<Rightarrow> comment list \<Rightarrow> store \<times> ref list" where
  "alloc \<sigma> cs = (\<sigma> @ cs, [length \<sigma> ..< length \<sigma> + length cs])"

text \<open>
  \<^verbatim>\<open>preprocess_comments\<close>, \<^verbatim>\<open>truncate_long_comments\<close> and the last loop of
  \<^verbatim>\<open>analyze_sentiment\<close> build each record of their result as a copy of a
  record of the argument and append it to a new list.
\<close>

definition preprocess_comments_st ::
    "text_env \<Rightarrow> store \<times> ref list \<Rightarrow> bool \<Rightarrow> store \<times> ref list" where
  "preprocess_comments_st env st apply_lemmatization =
     alloc (fst st) (preprocess_comments env (map (deref (fst st)) (snd st)) apply_lemmatization)"

definition truncate_long_comments_st :: "store \<times> ref list \<Rightarrow> int \<Rightarrow> error + store \<times> ref list" where
  "truncate_long_comments_st st max_length =
    (case truncate_long_comments (map (deref (fst st)) (snd st)) max_length of
       Inl e \<Rightarrow> Inl e
     | Inr truncated_comments \<Rightarrow> Inr (alloc (fst st) truncated_comments))"

text \<open>
  \<^verbatim>\<open>analyze_sentiment\<close> returns the list it was given when the model cannot be
  loaded.
\<close>

definition analyze_sentiment_st :: "model_loader \<Rightarrow> store \<times> ref list \<Rightarrow> store \<times> ref list" where
  "analyze_sentiment_st loader st =
    (if snd st = [] then (fst st, [])
     else case load_sentiment_model loader of
            None \<Rightarrow> st
          | Some sentiment_pipeline \<Rightarrow>
              alloc (fst st) (analyze_sentiment loader (map (deref (fst st)) (snd st))))"

text \<open>
  \<^verbatim>\<open>generate_comment_responses\<close> assigns \<^verbatim>\<open>comment['response']\<close> on each
  dictionary of its argument and returns the list it was given.
\<close>

fun respond_each_st ::
    "llm \<Rightarrow> lowering \<Rightarrow> pystr option \<Rightarrow> ref list \<Rightarrow> store \<times> rand \<Rightarrow> store \<times> rand" where
  "respond_each_st provider lower key [] (\<sigma>, g) = (\<sigma>, g)"
| "respond_each_st provider lower key (r # rs) (\<sigma>, g) =
    (let c = deref \<sigma> r;
         (t, g') = (if truthy key then generate_ai_response provider lower g c (the key)
                    else (generate_fallback_response lower (g 0) c, next_rand g))
     in respond_each_st provider lower key rs (\<sigma>[r := c\<lparr>response := Some t\<rparr>], g'))"

definition generate_comment_responses_st ::
    "llm \<Rightarrow> lowering \<Rightarrow> rand \<Rightarrow> store \<times> ref list \<Rightarrow> pystr option \<Rightarrow> store \<times> ref list" where
  "generate_comment_responses_st provider lower g st groq_api_key =
    (if snd st = [] then (fst st, [])
     else (fst (respond_each_st provider lower groq_api_key (snd st) (fst st, g)), snd st))"

section \<open>Example inputs\<close>

subsection \<open>Example providers of the fetcher\<close>





subsection \<open>Example inputs of the normaliser\<close>

text \<open>
  An environment for the examples: ASCII alphanumerics and lowering, a short
  English stopword list (the French one fails to load) and a lemmatiser that
  returns each word as it is. \<open>fetched a t\<close> is a raw record of the fetcher.
\<close>

definition example_env :: text_env where
  "example_env =
     \<lparr>unicode_alnum = (\<lambda>c. (48 \<le> c \<and> c \<le> 57) \<or> (65 \<le> c \<and> c \<le> 90) \<or> (97 \<le> c \<and> c \<le> 122)),
      unicode_lower = ascii_lower,
      nltk_stopwords = (\<lambda>l. if l = asc ''english''
                            then Some [asc ''this'', asc ''is'', asc ''the'', asc ''a'', asc ''it'']
                            else None),
      wordnet_lemmatize = (\<lambda>w. Some w)\<rparr>"

definition fetched :: "pystr \<Rightarrow> pystr \<Rightarrow> comment" where
  "fetched a t =
     \<lparr>raw_text = Some t, author = Some a, likes = Some (IntVal 0), published = Some (asc ''1 day ago''),
      original_text = None, processed_text = None, sentiment = None, confidence = None,
      scores = None, response = None\<rparr>"

subsection \<open>Example models of the classifier\<close>

text \<open>
  A pipeline that answers every batch with a positive prediction of score 0.75
  and a negative one of score 0.5, a pipeline that raises on every batch, and a
  loader whose every attempt raises.
\<close>

definition example_pipeline :: sentiment_pipeline where
  "example_pipeline batch =
     Inr [\<lparr>label = asc ''POSITIVE'', score = 3 / 4\<rparr>, \<lparr>label = asc ''NEGATIVE'', score = 1 / 2\<rparr>]"

definition failing_pipeline :: sentiment_pipeline where
  "failing_pipeline batch = Inl ProviderError"

definition failing_loader :: model_loader where
  "failing_loader attempt = Inl ProviderError"

text \<open>A loader whose first attempt builds the example pipeline.\<close>

definition example_loader :: model_loader where
  "example_loader attempt = Inr example_pipeline"

subsection \<open>Example input of the summariser\<close>

text \<open>
  \<open>analysed a t p s\<close> is a classified comment of the author \<open>a\<close> with the text
  \<open>t\<close>, the processed text \<open>p\<close> and the sentiment \<open>s\<close>; \<open>failing_llm\<close> builds a
  client with any key and raises on every request.
\<close>

definition analysed :: "pystr \<Rightarrow> pystr \<Rightarrow> pystr \<Rightarrow> pystr \<Rightarrow> comment" where
  "analysed a t p s =
     \<lparr>raw_text = Some t, author = Some a, likes = Some (IntVal 0),
      published = Some (asc ''1 day ago''), original_text = Some t, processed_text = Some p,
      sentiment = Some s, confidence = Some 1, scores = None, response = None\<rparr>"

definition failing_llm :: llm where
  "failing_llm key = Inr (\<lambda>request. Inl ProviderError)"

text \<open>
  A provider that builds a client with any key and whose requests raise for the
  key \<^verbatim>\<open>gsk_example\<close> only.
\<close>

definition rejecting_llm :: llm where
  "rejecting_llm key =
     Inr (\<lambda>request. if key = asc ''gsk_example'' then Inl ProviderError
                     else Inr (asc ''Viewers liked the tutorial.''))"

subsection \<open>Example input: three comments of a run without credentials\<close>

definition long_name_comment :: "pystr \<Rightarrow> comment" where
  "long_name_comment t =
     \<lparr>raw_text = Some t, author = Some (asc ''TheOfficialMusicChannel''), likes = Some (IntVal 0),
      published = Some (asc ''1 day ago''), original_text = Some t,
      processed_text = Some t, sentiment = Some (asc ''positive''),
      confidence = Some 1, scores = Some \<lparr>positive = 1, negative = 0\<rparr>, response = None\<rparr>"

section \<open>Vocabulary of the proofs\<close>

text \<open>
  A text in which every whitespace character is a space that is followed by no
  whitespace: what \<open>collapse_ws\<close> returns and what it leaves as it is.
\<close>

fun collapsed :: "pystr \<Rightarrow> bool" where
  "collapsed [] = True"
| "collapsed (c # cs) =
    ((if is_space c then c = 32 \<and> (cs = [] \<or> \<not> is_space (hd cs)) else True) \<and> collapsed cs)"

text \<open>
  The slices \<^verbatim>\<open>texts[i:i + batch_size]\<close> that the loop of the classifier hands
  to the pipeline, in order: 32 texts each, fewer in the last one.
\<close>

function batches :: "'a list \<Rightarrow> 'a list list" where
  "batches texts = (if texts = [] then [] else take 32 texts # batches (drop 32 texts))"
  by pat_completeness auto
termination
  by (relation "measure length") auto

declare batches.simps [simp del]

chapter \<open>Properties\<close>

section \<open>The response generator\<close>

lemma random_choice_in: "xs \<noteq> [] \<Longrightarrow> random_choice r xs \<in> set xs"
  by (simp add: random_choice_def)

lemma sublist_thank:
  assumes "sublist (asc ''thank you'') t"
  shows "sublist (asc ''thank'') t"
proof -
  have "asc ''thank you'' = asc ''thank'' @ asc '' you''" by (simp add: asc_def)
  then have "sublist (asc ''thank'') (asc ''thank you'')" by simp
  then show ?thesis using assms by (rule sublist_order.order.trans)
qed

text \<open>
  C8. A comment whose sentiment is \<^verbatim>\<open>positive\<close> and whose lowercased original
  text contains \<^verbatim>\<open>thank you\<close> gets, from the template fallback, one of the four
  templates of the gratitude bucket, with the author of the comment (or
  \<^verbatim>\<open>there\<close>, when it has none) in the place of the name, whatever the random
  draw is.
\<close>

theorem gratitude_bucket:
  assumes "sentiment c = Some (asc ''positive'')"
    and "sublist (asc ''thank you'') (lower (dict_get (original_text c) []))"
  shows "generate_fallback_response lower r c \<in>
     {asc ''Thank you so much '' @ dict_get (author c) (asc ''there'') @ asc ''! '' @ [0x1F60A],
      asc ''Really appreciate it '' @ dict_get (author c) (asc ''there'') @ asc ''! '' @ [0x2764, 0xFE0F],
      asc ''Thanks '' @ dict_get (author c) (asc ''there'') @ asc '', that means a lot!'',
      asc ''So glad you enjoyed it '' @ dict_get (author c) (asc ''there'') @ asc ''! '' @ [0x1F64F]}"
proof -
  let ?a = "dict_get (author c) (asc ''there'')"
  have cue: "any_word_in [asc ''thank'', asc ''thanks'', asc ''great'', asc ''awesome'',
                           asc ''love'', asc ''amazing''] (lower (dict_get (original_text c) []))"
    using sublist_thank[OF assms(2)] by (simp add: any_word_in_def)
  have "fallback_responses lower c = appreciation_templates ?a"
    using assms(1) cue by (simp add: fallback_responses_def dict_get_def Let_def)
  moreover have "appreciation_templates ?a \<noteq> []"
    by (simp add: appreciation_templates_def)
  ultimately have "generate_fallback_response lower r c \<in> set (appreciation_templates ?a)"
    unfolding generate_fallback_response_def
    using random_choice_in[of "appreciation_templates ?a" r] by simp
  then show ?thesis by (simp add: appreciation_templates_def)
qed

theorem gratitude_bucket_witness:
  "generate_fallback_response ascii_lower 2
     \<lparr>raw_text = None, author = Some (asc ''Ann''), likes = None, published = None,
      original_text = Some (asc ''Thank you for this''), processed_text = None,
      sentiment = Some (asc ''positive''), confidence = None, scores = None,
      response = None\<rparr>
   \<in> {asc ''Thank you so much Ann! '' @ [0x1F60A],
      asc ''Really appreciate it Ann! '' @ [0x2764, 0xFE0F],
      asc ''Thanks Ann, that means a lot!'',
      asc ''So glad you enjoyed it Ann! '' @ [0x1F64F]}"
proof -
  let ?c = "\<lparr>raw_text = None, author = Some (asc ''Ann''), likes = None, published = None,
      original_text = Some (asc ''Thank you for this''), processed_text = None,
      sentiment = Some (asc ''positive''), confidence = None, scores = None,
      response = None\<rparr>"
  have s: "sentiment ?c = Some (asc ''positive'')" by simp
  have t: "sublist (asc ''thank you'') (ascii_lower (dict_get (original_text ?c) []))"
    by (simp add: ascii_lower_def dict_get_def asc_def sublist_Cons_right)
  show ?thesis using gratitude_bucket[of ?c ascii_lower 2] s t
    by (simp add: dict_get_def asc_def)
qed

lemma fallback_responses_nonempty: "fallback_responses lower c \<noteq> []"
  by (simp add: fallback_responses_def Let_def appreciation_templates_def
      kind_words_templates_def support_templates_def improvement_templates_def
      clarity_templates_def feedback_templates_def neutral_templates_def)

lemma fallback_responses_length:
  "x \<in> set (fallback_responses lower c) \<Longrightarrow>
     10 + length (dict_get (author c) (asc ''there'')) \<le> length x"
  by (auto simp add: fallback_responses_def Let_def appreciation_templates_def
      kind_words_templates_def support_templates_def improvement_templates_def
      clarity_templates_def feedback_templates_def neutral_templates_def asc_def
      split: if_splits)

lemma fallback_response_length:
  "10 + length (dict_get (author c) (asc ''there'')) \<le> length (generate_fallback_response lower r c)"
  unfolding generate_fallback_response_def
  using fallback_responses_length[of _ lower c]
    random_choice_in[OF fallback_responses_nonempty, of r lower c] by blast

lemma long_name_response:
  "30 < length (generate_fallback_response lower r (long_name_comment t))"
  using fallback_response_length[of "long_name_comment t" lower r]
  by (simp add: long_name_comment_def dict_get_def asc_def)

text \<open>
  C1. Three comments of an author whose name has 23 characters, answered with no
  credential: every response is a template (the shortest template has 10
  characters beside the name), every response is longer than 30 characters, and
  the report counts all three under \<^verbatim>\<open>ai_responses\<close> and none under
  \<^verbatim>\<open>template_responses\<close>, whatever the provider, the lowering and the random
  draws are.
\<close>

theorem template_responses_counted_as_ai:
  "get_response_summary
     (generate_comment_responses provider lower g
        [long_name_comment (asc ''nice video''), long_name_comment (asc ''first''),
         long_name_comment (asc ''see you next week'')] None)
   = Some \<lparr>total_responses = 3, ai_responses = 3, template_responses = 0\<rparr>"
proof -
  have len: "\<And>r t. 30 < length (generate_fallback_response lower r (long_name_comment t))"
    by (rule long_name_response)
  have ne: "generate_fallback_response lower r (long_name_comment t) \<noteq> []" for r t
    using len[of r t] by auto
  show ?thesis
    by (simp add: get_response_summary_def generate_comment_responses_def truthy_def
        dict_get_def len ne)
qed

section \<open>The normaliser\<close>

lemma strip_prefix_of_dropWhile:
  "dropWhile is_space t = strip t @ rev (takeWhile is_space (rev (dropWhile is_space t)))"
proof -
  show ?thesis
    by (simp only: strip_def rev_append[symmetric] takeWhile_dropWhile_id rev_rev_ident)
qed

lemma strip_no_leading_space: "dropWhile is_space (strip t) = strip t"
proof (cases "strip t = []")
  case True
  then show ?thesis by simp
next
  case False
  let ?u = "dropWhile is_space t"
  have u: "?u = strip t @ rev (takeWhile is_space (rev ?u))"
    by (rule strip_prefix_of_dropWhile)
  with False have "?u \<noteq> []" by (metis Nil_is_append_conv)
  then have "\<not> is_space (hd ?u)" by (rule hd_dropWhile)
  moreover have "hd ?u = hd (strip t)" using u False by (metis hd_append2)
  ultimately show ?thesis using False by (simp add: dropWhile_eq_self_iff)
qed

lemma strip_idem: "strip (strip t) = strip t"
proof -
  have "rev (strip t) = dropWhile is_space (rev (dropWhile is_space t))"
    by (simp add: strip_def)
  then have "dropWhile is_space (rev (strip t)) = rev (strip t)" by simp
  then have "rev (dropWhile is_space (rev (dropWhile is_space (strip t)))) = strip t"
    by (simp add: strip_no_leading_space)
  then show ?thesis by (simp add: strip_def[of "strip t"])
qed

lemma set_strip: "set (strip t) \<subseteq> set t"
  by (auto simp: strip_def dest!: set_dropWhileD)

lemma is_space_32: "is_space 32"
  by (simp add: is_space_def)

lemma hd_collapse_ws:
  "z \<noteq> [] \<Longrightarrow> \<not> is_space (hd z) \<Longrightarrow> collapse_ws z \<noteq> [] \<and> hd (collapse_ws z) = hd z"
  by (cases z) auto

lemma collapsed_collapse_ws: "collapsed (collapse_ws t)"
proof (induction t rule: collapse_ws.induct)
  case 1
  then show ?case by simp
next
  case (2 c cs)
  show ?case
  proof (cases "is_space c")
    case True
    let ?z = "dropWhile is_space cs"
    have "collapse_ws ?z = [] \<or> \<not> is_space (hd (collapse_ws ?z))"
    proof (cases "?z = []")
      case True
      have "collapse_ws ?z = []" unfolding True by simp
      then show ?thesis ..
    next
      case False
      then have n: "\<not> is_space (hd ?z)" by (rule hd_dropWhile)
      from hd_collapse_ws[OF False n] n show ?thesis by metis
    qed
    with True 2 show ?thesis by (simp add: is_space_32)
  next
    case False
    with 2 show ?thesis by simp
  qed
qed

lemma collapse_ws_collapsed: "collapsed t \<Longrightarrow> collapse_ws t = t"
proof (induction t)
  case Nil
  then show ?case by simp
next
  case (Cons c cs)
  then have cs: "collapse_ws cs = cs" by simp
  show ?case
  proof (cases "is_space c")
    case True
    with Cons.prems have c: "c = 32" and h: "cs = [] \<or> \<not> is_space (hd cs)" by simp_all
    from h have "dropWhile is_space cs = cs" by (simp add: dropWhile_eq_self_iff)
    with True c cs show ?thesis by simp
  next
    case False
    with cs show ?thesis by simp
  qed
qed

lemma collapsed_append: "collapsed (xs @ ys) \<Longrightarrow> collapsed xs \<and> collapsed ys"
  by (induction xs) (auto split: if_splits)

lemma collapsed_strip: "collapsed t \<Longrightarrow> collapsed (strip t)"
proof -
  assume c: "collapsed t"
  have "t = takeWhile is_space t @ dropWhile is_space t" by simp
  with c have "collapsed (dropWhile is_space t)" using collapsed_append by metis
  then show ?thesis using strip_prefix_of_dropWhile[of t] collapsed_append by metis
qed

lemma set_collapse_ws: "set (collapse_ws t) \<subseteq> insert 32 (set t)"
  by (induction t rule: collapse_ws.induct) (auto dest: set_dropWhileD)

lemma kept_remove_special_characters:
  "c \<in> set (remove_special_characters env t) \<Longrightarrow> kept_char env c"
proof -
  assume "c \<in> set (remove_special_characters env t)"
  then have "c \<in> set (collapse_ws (filter (kept_char env) t))"
    using set_strip by (auto simp: remove_special_characters_def)
  then have "c = 32 \<or> c \<in> set (filter (kept_char env) t)"
    using set_collapse_ws[of "filter (kept_char env) t"] by auto
  then show ?thesis using is_space_32 by (auto simp: kept_char_def)
qed

text \<open>
  C9. The character-stripping step is idempotent: for every text, and whatever
  the table of the alphanumerics is, the step applied to its own result returns
  that result.
\<close>

theorem remove_special_characters_idempotent:
  "remove_special_characters env (remove_special_characters env t) =
     remove_special_characters env t"
proof -
  let ?r = "remove_special_characters env t"
  have f: "filter (kept_char env) ?r = ?r"
    using kept_remove_special_characters by (simp add: filter_id_conv)
  have "collapsed ?r"
    unfolding remove_special_characters_def
    by (rule collapsed_strip) (rule collapsed_collapse_ws)
  then have g: "collapse_ws ?r = ?r" by (rule collapse_ws_collapsed)
  have s: "strip ?r = ?r"
    unfolding remove_special_characters_def by (rule strip_idem)
  show ?thesis
    unfolding remove_special_characters_def[of env ?r] by (simp only: f g s)
qed

lemma strip_preprocess_comment:
  "strip (preprocess_comment env t a) = preprocess_comment env t a"
  by (simp add: preprocess_comment_def Let_def strip_idem) (simp add: strip_def)

text \<open>
  C5. The normaliser returns, in the order of its input, the enriched copies of
  the records whose processed text is longer than 3 characters: every record of
  the result has a processed text of more than 3 characters, a record whose
  processed text has at most 3 characters is not in the result, and the result
  is no longer than the input.
\<close>

theorem normalizer_filter:
  "preprocess_comments env cs a =
     filter (\<lambda>c. 3 < length (dict_get (processed_text c) []))
       (map (\<lambda>c. c\<lparr>original_text := Some (dict_get (raw_text c) []),
                     processed_text := Some (preprocess_comment env (dict_get (raw_text c) []) a)\<rparr>) cs)
   \<and> (\<forall>c \<in> set (preprocess_comments env cs a). \<exists>t. processed_text c = Some t \<and> 3 < length t)
   \<and> length (preprocess_comments env cs a) \<le> length cs"
proof -
  have eq: "preprocess_comments env cs a =
     filter (\<lambda>c. 3 < length (dict_get (processed_text c) []))
       (map (\<lambda>c. c\<lparr>original_text := Some (dict_get (raw_text c) []),
                     processed_text := Some (preprocess_comment env (dict_get (raw_text c) []) a)\<rparr>) cs)"
    by (induction cs) (simp_all add: Let_def strip_preprocess_comment dict_get_def)
  have "\<forall>c \<in> set (preprocess_comments env cs a). \<exists>t. processed_text c = Some t \<and> 3 < length t"
    unfolding eq by (auto simp: dict_get_def)
  moreover have "length (preprocess_comments env cs a) \<le> length cs"
    unfolding eq by (rule le_trans[OF length_filter_le]) simp
  ultimately show ?thesis using eq by blast
qed

lemmas normalizer_defs = preprocess_comment_def remove_emojis_def is_emoji_def
  remove_special_characters_def kept_char_def example_env_def strip_def is_space_def
  remove_stopwords_text_def load_stop_words_def lemmatize_text_def ascii_lower_def
  url_match_def url_char_def html_match_def prefix_code Let_def asc_def

theorem normalizer_filter_witness:
  "preprocess_comments example_env
     [fetched (asc ''Ann'') (asc ''It is OK''),
      fetched (asc ''Bob'') (asc ''This video is GREAT!  see https://youtu.be/x?y=1 <b>now</b>'')] True
   = [(fetched (asc ''Bob'') (asc ''This video is GREAT!  see https://youtu.be/x?y=1 <b>now</b>''))
        \<lparr>original_text := Some (asc ''This video is GREAT!  see https://youtu.be/x?y=1 <b>now</b>''),
         processed_text := Some (asc ''video great! see now'')\<rparr>]
   \<and> length (preprocess_comments example_env
     [fetched (asc ''Ann'') (asc ''It is OK''),
      fetched (asc ''Bob'') (asc ''This video is GREAT!  see https://youtu.be/x?y=1 <b>now</b>'')] True) \<le> 2"
proof -
  let ?cs = "[fetched (asc ''Ann'') (asc ''It is OK''),
      fetched (asc ''Bob'') (asc ''This video is GREAT!  see https://youtu.be/x?y=1 <b>now</b>'')]"
  have a: "preprocess_comment example_env (asc ''It is OK'') True = asc ''ok''"
    by (simp add: normalizer_defs)
  have b: "preprocess_comment example_env
      (asc ''This video is GREAT!  see https://youtu.be/x?y=1 <b>now</b>'') True
      = asc ''video great! see now''"
    by (simp add: normalizer_defs)
  have "length (preprocess_comments example_env ?cs True) \<le> length ?cs"
    using normalizer_filter[of example_env ?cs True] by blast
  moreover have "preprocess_comments example_env ?cs True
     = [(fetched (asc ''Bob'') (asc ''This video is GREAT!  see https://youtu.be/x?y=1 <b>now</b>''))
        \<lparr>original_text := Some (asc ''This video is GREAT!  see https://youtu.be/x?y=1 <b>now</b>''),
         processed_text := Some (asc ''video great! see now'')\<rparr>]"
    unfolding normalizer_filter[of example_env ?cs True, THEN conjunct1]
    by (simp add: a b fetched_def dict_get_def) (simp add: asc_def)
  ultimately show ?thesis by simp
qed

section \<open>Float rounding\<close>

lemma pow2_add: "(2::rat) powi (a + b) = 2 powi a * 2 powi b"
  by (simp add: power_int_add)

lemma pow2_diff: "(2::rat) powi (a - b) = 2 powi a / 2 powi b"
  by (simp add: power_int_diff)

lemma pow2_pos: "0 < (2::rat) powi a"
  by (simp add: zero_less_power_int)

lemma ilog2_bounds:
  assumes "x \<noteq> 0"
  shows "2 powi (ilog2 x) \<le> \<bar>x\<bar> \<and> \<bar>x\<bar> < 2 powi (ilog2 x + 1)"
proof -
  obtain p q where pq: "quotient_of \<bar>x\<bar> = (p, q)" by (cases "quotient_of \<bar>x\<bar>")
  have q: "0 < q" using pq by (rule quotient_of_denom_pos)
  have x: "\<bar>x\<bar> = of_int p / of_int q" using pq by (rule quotient_of_div)
  have "0 < \<bar>x\<bar>" using assms by simp
  then have p: "0 < p" using x q by (simp add: zero_less_divide_iff)
  let ?d = "bitlen p - bitlen q"
  from bitlen_bounds[OF p] have p1: "2 ^ nat (bitlen p - 1) \<le> p" and p2: "p < 2 ^ nat (bitlen p)" by auto
  from bitlen_bounds[OF q] have q1: "2 ^ nat (bitlen q - 1) \<le> q" and q2: "q < 2 ^ nat (bitlen q)" by auto
  have bp: "0 < bitlen p" using p bitlen_nonneg[of p] bitlen_eq_zero_iff[of p] by linarith
  have bq: "0 < bitlen q" using q bitlen_nonneg[of q] bitlen_eq_zero_iff[of q] by linarith
  have P2: "(of_int p :: rat) < 2 powi (bitlen p)"
  proof -
    have "(of_int p :: rat) < of_int (2 ^ nat (bitlen p))" using p2 by (simp only: of_int_less_iff)
    then show ?thesis using bp by (simp add: power_int_nonneg_exp)
  qed
  have Q1: "(2::rat) powi (bitlen q - 1) \<le> of_int q"
  proof -
    have "(of_int (2 ^ nat (bitlen q - 1)) :: rat) \<le> of_int q" using q1 by (simp only: of_int_le_iff)
    then show ?thesis using bq by (simp add: power_int_nonneg_exp)
  qed
  have P1: "(2::rat) powi (bitlen p - 1) \<le> of_int p"
  proof -
    have "(of_int (2 ^ nat (bitlen p - 1)) :: rat) \<le> of_int p" using p1 by (simp only: of_int_le_iff)
    then show ?thesis using bp by (simp add: power_int_nonneg_exp)
  qed
  have Q2: "(of_int q :: rat) < 2 powi (bitlen q)"
  proof -
    have "(of_int q :: rat) < of_int (2 ^ nat (bitlen q))" using q2 by (simp only: of_int_less_iff)
    then show ?thesis using bq by (simp add: power_int_nonneg_exp)
  qed
  have upper: "\<bar>x\<bar> < 2 powi (?d + 1)"
  proof -
    have "of_int p / of_int q < (2::rat) powi (bitlen p) / 2 powi (bitlen q - 1)"
      using P2 Q1 p q by (intro frac_less) auto
    also have "\<dots> = 2 powi (?d + 1)"
      by (simp add: pow2_diff pow2_add)
    finally show ?thesis using x by simp
  qed
  have lower: "2 powi (?d - 1) < \<bar>x\<bar>"
  proof -
    have "(2::rat) powi (bitlen p - 1) / 2 powi (bitlen q) < of_int p / of_int q"
      using P1 Q2 p q by (intro frac_less2) auto
    moreover have "(2::rat) powi (bitlen p - 1) / 2 powi (bitlen q) = 2 powi (?d - 1)"
      by (simp add: pow2_diff)
    ultimately show ?thesis using x by simp
  qed
  show ?thesis
    using upper lower pq by (auto simp: ilog2_def Let_def not_le)
qed

lemma ilog2_eqI:
  assumes "x \<noteq> 0" and lo: "2 powi k \<le> \<bar>x\<bar>" and hi: "\<bar>x\<bar> < 2 powi (k + 1)"
  shows "ilog2 x = k"
proof (rule ccontr)
  assume ne: "ilog2 x \<noteq> k"
  from ilog2_bounds[OF assms(1)]
  have b1: "2 powi (ilog2 x) \<le> \<bar>x\<bar>" and b2: "\<bar>x\<bar> < 2 powi (ilog2 x + 1)" by auto
  show False
  proof (cases "ilog2 x < k")
    case True
    then have "(2::rat) powi (ilog2 x + 1) \<le> 2 powi k"
      by (intro power_int_increasing) auto
    with b2 lo show False by linarith
  next
    case False
    with ne have "k + 1 \<le> ilog2 x" by linarith
    then have "(2::rat) powi (k + 1) \<le> 2 powi (ilog2 x)"
      by (intro power_int_increasing) auto
    with b1 hi show False by linarith
  qed
qed

lemma round_half_even_error: "\<bar>of_int (round_half_even q) - q\<bar> \<le> 1 / 2"
proof -
  have "of_int \<lfloor>q\<rfloor> \<le> q" "q < of_int \<lfloor>q\<rfloor> + 1" by linarith+
  then show ?thesis by (auto simp: round_half_even_def Let_def)
qed

lemma round_half_even_of_int: "round_half_even (of_int n) = n"
  by (simp add: round_half_even_def)

lemma round_half_even_numeral: "round_half_even (numeral n) = numeral n"
  using round_half_even_of_int[of "numeral n"] by simp

lemma fl_error_below_one:
  assumes "0 < x" "x < 1"
  shows "\<bar>fl x - x\<bar> \<le> 1 / 2 ^ 54"
proof -
  have x0: "x \<noteq> 0" using assms by simp
  have "2 powi (ilog2 x) \<le> \<bar>x\<bar>" using ilog2_bounds[OF x0] by simp
  then have lt: "(2::rat) powi (ilog2 x) < 1" using assms by simp
  have "ilog2 x < 0"
  proof (rule ccontr)
    assume "\<not> ilog2 x < 0"
    then have "(2::rat) powi 0 \<le> 2 powi (ilog2 x)"
      by (intro power_int_increasing) auto
    with lt show False by simp
  qed
  define e where "e = max (ilog2 x - 52) (- 1074)"
  have e: "e \<le> - 53" using \<open>ilog2 x < 0\<close> by (simp add: e_def)
  let ?q = "x / 2 powi e"
  have flx: "fl x = of_int (round_half_even ?q) * 2 powi e"
    using x0 by (simp add: fl_def e_def Let_def)
  have "fl x - x = (of_int (round_half_even ?q) - ?q) * 2 powi e"
    using pow2_pos[of e] by (simp add: flx algebra_simps)
  then have "\<bar>fl x - x\<bar> = \<bar>of_int (round_half_even ?q) - ?q\<bar> * 2 powi e"
    using pow2_pos[of e] by (simp add: abs_mult)
  also have "\<dots> \<le> 1 / 2 * 2 powi e"
    using round_half_even_error[of ?q] pow2_pos[of e] by (intro mult_right_mono) auto
  also have "\<dots> \<le> 1 / 2 * 2 powi (- 53)"
    using e by (intro mult_left_mono power_int_increasing) auto
  also have "\<dots> = 1 / 2 ^ 54" by (simp add: power_int_minus)
  finally show ?thesis .
qed

lemma fl_one: "fl 1 = 1"
proof -
  have "ilog2 1 = 0" by (rule ilog2_eqI) simp_all
  then show ?thesis by (simp add: fl_def Let_def round_half_even_numeral power_int_minus)
qed

lemma fl_near_one:
  assumes lo: "1 - 1 / 2 ^ 54 \<le> z" and hi: "z \<le> 1 + 1 / 2 ^ 54"
  shows "fl z = 1"
proof (cases "1 \<le> z")
  case True
  have z0: "z \<noteq> 0" using True by simp
  have "ilog2 z = 0" using True hi by (intro ilog2_eqI) auto
  then have flz: "fl z = of_int (round_half_even (z * 2 ^ 52)) / 2 ^ 52"
    using z0 by (simp add: fl_def Let_def power_int_minus field_simps)
  have f: "\<lfloor>z * 2 ^ 52\<rfloor> = 2 ^ 52"
    using True hi by (intro floor_unique) auto
  have "z * 2 ^ 52 - of_int \<lfloor>z * 2 ^ 52\<rfloor> < 1 / 2"
    unfolding f using hi by simp
  then have "round_half_even (z * 2 ^ 52) = 2 ^ 52"
    unfolding round_half_even_def Let_def using f by simp
  then show ?thesis by (simp add: flz)
next
  case False
  have z0: "z \<noteq> 0" using lo by auto
  have "ilog2 z = - 1" using False lo by (intro ilog2_eqI) (auto simp: power_int_minus)
  then have flz: "fl z = of_int (round_half_even (z * 2 ^ 53)) / 2 ^ 53"
    using z0 by (simp add: fl_def Let_def power_int_minus field_simps)
  have f: "\<lfloor>z * 2 ^ 53\<rfloor> = 2 ^ 53 - 1"
    using False lo by (intro floor_unique) auto
  have d: "1 / 2 \<le> z * 2 ^ 53 - of_int \<lfloor>z * 2 ^ 53\<rfloor>"
    unfolding f using lo by simp
  have "odd (2 ^ 53 - 1 :: int)" by simp
  then have "round_half_even (z * 2 ^ 53) = 2 ^ 53"
    unfolding round_half_even_def Let_def using f d by auto
  then show ?thesis by (simp add: flz)
qed

lemma fl_zero: "fl 0 = 0"
  by (simp add: fl_def)

lemma complement_sums_to_one:
  assumes "0 \<le> s" "s \<le> 1"
  shows "fadd s (fsub 1 s) = 1" and "fadd (fsub 1 s) s = 1"
proof -
  have "fl (s + fl (1 - s)) = 1"
  proof (cases "s = 0 \<or> s = 1")
    case True
    then show ?thesis by (auto simp: fl_one fl_zero)
  next
    case False
    with assms have "0 < 1 - s" "1 - s < 1" by auto
    from fl_error_below_one[OF this] have "\<bar>fl (1 - s) - (1 - s)\<bar> \<le> 1 / 2 ^ 54" .
    then have "1 - 1 / 2 ^ 54 \<le> s + fl (1 - s)" and "s + fl (1 - s) \<le> 1 + 1 / 2 ^ 54"
      by linarith+
    then show ?thesis by (rule fl_near_one)
  qed
  then show "fadd s (fsub 1 s) = 1" and "fadd (fsub 1 s) s = 1"
    by (simp_all add: fadd_def fsub_def add.commute)
qed

lemma fl_half: "fl (1 / 2) = 1 / 2"
proof -
  have "ilog2 (1 / 2) = - 1" by (rule ilog2_eqI) (simp_all add: power_int_minus)
  then show ?thesis by (simp add: fl_def Let_def round_half_even_numeral power_int_minus)
qed

lemma round_half_even_eqI:
  assumes "of_int n - 1 / 2 < q" "q < of_int n + 1 / 2"
  shows "round_half_even q = n"
proof (cases "of_int n \<le> q")
  case True
  then have "\<lfloor>q\<rfloor> = n" using assms by (intro floor_unique) auto
  then show ?thesis using assms by (simp add: round_half_even_def Let_def)
next
  case False
  then have f: "\<lfloor>q\<rfloor> = n - 1" using assms by (intro floor_unique) auto
  have "1 / 2 < q - of_int (n - 1)" using assms by simp
  then show ?thesis using assms f by (simp add: round_half_even_def Let_def)
qed

lemma fl_six_tenths: "fl (6 / 10) = 5404319552844595 / 2 ^ 53"
proof -
  have "ilog2 (6 / 10) = - 1" by (rule ilog2_eqI) (simp_all add: power_int_minus)
  moreover have "round_half_even (6 / 10 * 2 ^ 53) = 5404319552844595"
    by (rule round_half_even_eqI) simp_all
  ultimately show ?thesis by (simp add: fl_def Let_def power_int_minus)
qed

lemma fl_four_tenths: "fl (4 / 10) = 3602879701896397 / 2 ^ 53"
proof -
  have "ilog2 (4 / 10) = - 2" by (rule ilog2_eqI) (simp_all add: power_int_minus)
  moreover have "round_half_even (4 / 10 * 2 ^ 54) = 7205759403792794"
    by (rule round_half_even_eqI) simp_all
  ultimately show ?thesis by (simp add: fl_def Let_def power_int_minus)
qed

lemma default_scores_sum: "fadd (fl (6 / 10)) (fl (4 / 10)) = 1"
  unfolding fadd_def fl_six_tenths fl_four_tenths by (simp add: fl_one)

section \<open>The classifier\<close>

lemma fl_quarter: "fl (1 / 4) = 1 / 4"
proof -
  have "ilog2 (1 / 4) = - 2" by (rule ilog2_eqI) (simp_all add: power_int_minus)
  then show ?thesis by (simp add: fl_def Let_def round_half_even_numeral power_int_minus)
qed

text \<open>
  C4. For a raw score \<open>s\<close> between 0 and 1, the label mapping returns
  \<open>(s, 1 - s)\<close> for the label \<^verbatim>\<open>POSITIVE\<close>, \<open>(1 - s, s)\<close> for \<^verbatim>\<open>NEGATIVE\<close> and
  the default \<open>(0.6, 0.4)\<close> for every other label, and the float sum of the
  positive and the negative score is exactly 1.0 in each case; \<open>1 - s\<close> and the
  sum are the rounded binary64 operations.
\<close>

theorem label_mapping_sums_to_one:
  assumes "0 \<le> s" and "s \<le> 1"
  shows "(l = asc ''POSITIVE'' \<longrightarrow>
            map_sentiment_label l s = \<lparr>positive = s, negative = fsub 1 s\<rparr>)
       \<and> (l = asc ''NEGATIVE'' \<longrightarrow>
            map_sentiment_label l s = \<lparr>positive = fsub 1 s, negative = s\<rparr>)
       \<and> (l \<noteq> asc ''POSITIVE'' \<and> l \<noteq> asc ''NEGATIVE'' \<longrightarrow>
            map_sentiment_label l s = \<lparr>positive = fl (6 / 10), negative = fl (4 / 10)\<rparr>)
       \<and> fadd (positive (map_sentiment_label l s)) (negative (map_sentiment_label l s)) = 1"
proof -
  have pn: "asc ''POSITIVE'' \<noteq> asc ''NEGATIVE''" by (simp add: asc_def)
  have "fadd (positive (map_sentiment_label l s)) (negative (map_sentiment_label l s)) = 1"
    using complement_sums_to_one[OF assms] default_scores_sum
    by (simp add: map_sentiment_label_def)
  then show ?thesis using pn by (simp add: map_sentiment_label_def)
qed

theorem label_mapping_sums_to_one_witness:
  "(0::rat) \<le> 3 / 4 \<and> (3 / 4 :: rat) \<le> 1
   \<and> map_sentiment_label (asc ''POSITIVE'') (3 / 4) = \<lparr>positive = 3 / 4, negative = 1 / 4\<rparr>
   \<and> fadd (3 / 4) (1 / 4) = 1"
proof -
  have a: "(0::rat) \<le> 3 / 4" and b: "(3 / 4 :: rat) \<le> 1" by simp_all
  have q: "fsub 1 (3 / 4) = 1 / 4" using fl_quarter by (simp add: fsub_def)
  from label_mapping_sums_to_one[OF a b, of "asc ''POSITIVE''"]
  have "map_sentiment_label (asc ''POSITIVE'') (3 / 4)
          = \<lparr>positive = 3 / 4, negative = fsub 1 (3 / 4)\<rparr>"
    and "fadd (positive (map_sentiment_label (asc ''POSITIVE'') (3 / 4)))
              (negative (map_sentiment_label (asc ''POSITIVE'') (3 / 4))) = 1"
    by blast+
  then show ?thesis using a b by (simp add: q)
qed

lemma prediction_result_tag:
  "(result_sentiment (prediction_result p) = asc ''positive'')
     = (negative (result_scores (prediction_result p)) < positive (result_scores (prediction_result p)))
   \<and> (result_sentiment (prediction_result p) = asc ''negative'')
     = (\<not> negative (result_scores (prediction_result p)) < positive (result_scores (prediction_result p)))"
  by (simp add: prediction_result_def Let_def asc_def)

lemma classify_batches_results:
  "r \<in> set (classify_batches p texts) \<Longrightarrow> r = default_result \<or> (\<exists>q. r = prediction_result q)"
proof (induction p texts rule: classify_batches.induct)
  case (1 p texts)
  show ?case
  proof (cases "texts = []")
    case True
    with 1(2) show ?thesis by simp
  next
    case False
    from 1(2) False have "r \<in> set (case p (take 32 texts) of
          Inr batch_predictions \<Rightarrow> map prediction_result batch_predictions
        | Inl e \<Rightarrow> map (\<lambda>_. default_result) (take 32 texts))
      \<or> r \<in> set (classify_batches p (drop 32 texts))"
      by (subst (asm) classify_batches.simps) (simp add: Let_def)
    then show ?thesis
    proof
      assume "r \<in> set (case p (take 32 texts) of
          Inr batch_predictions \<Rightarrow> map prediction_result batch_predictions
        | Inl e \<Rightarrow> map (\<lambda>_. default_result) (take 32 texts))"
      then show ?thesis by (cases "p (take 32 texts)") auto
    next
      assume "r \<in> set (classify_batches p (drop 32 texts))"
      with 1(1)[OF False refl] show ?thesis by simp
    qed
  qed
qed

lemma batches_Nil: "batches [] = []"
  by (simp add: batches.simps)

lemma batches_Cons: "texts \<noteq> [] \<Longrightarrow> batches texts = take 32 texts # batches (drop 32 texts)"
  by (subst batches.simps) simp

lemma batches_short: "texts \<noteq> [] \<Longrightarrow> length texts \<le> 32 \<Longrightarrow> batches texts = [texts]"
  by (simp add: batches_Cons batches_Nil)

lemma concat_batches: "concat (batches texts) = texts"
proof (induction texts rule: batches.induct)
  case (1 texts)
  show ?case
  proof (cases "texts = []")
    case True
    then show ?thesis by (simp add: batches_Nil)
  next
    case False
    with 1 show ?thesis by (simp add: batches_Cons)
  qed
qed

lemma batches_sizes: "b \<in> set (batches texts) \<Longrightarrow> b \<noteq> [] \<and> length b \<le> 32"
proof (induction texts rule: batches.induct)
  case (1 texts)
  show ?case
  proof (cases "texts = []")
    case True
    with 1(2) show ?thesis by (simp add: batches_Nil)
  next
    case False
    with 1 show ?thesis by (auto simp: batches_Cons)
  qed
qed

lemma classify_batches_concat:
  "classify_batches p texts
     = concat (map (\<lambda>batch_texts. case p batch_texts of
                       Inr batch_predictions \<Rightarrow> map prediction_result batch_predictions
                     | Inl e \<Rightarrow> replicate (length batch_texts) default_result)
                 (batches texts))"
proof (induction p texts rule: classify_batches.induct)
  case (1 p texts)
  show ?case
  proof (cases "texts = []")
    case True
    then show ?thesis by (simp add: batches_Nil)
  next
    case False
    have step: "classify_batches p texts
        = (case p (take 32 texts) of
             Inr batch_predictions \<Rightarrow> map prediction_result batch_predictions
           | Inl e \<Rightarrow> map (\<lambda>_. default_result) (take 32 texts))
          @ classify_batches p (drop 32 texts)"
      using False by (subst classify_batches.simps) (simp add: Let_def)
    show ?thesis
      unfolding step 1[OF False refl] batches_Cons[OF False]
      by (cases "p (take 32 texts)") (simp_all add: map_replicate_const)
  qed
qed

lemma all_batches_fail:
  assumes "\<forall>b \<in> set (batches texts). \<exists>e. p b = Inl e"
  shows "classify_batches p texts = replicate (length texts) default_result"
  using assms
proof (induction texts rule: batches.induct)
  case (1 texts)
  show ?case
  proof (cases "texts = []")
    case True
    then show ?thesis by simp
  next
    case False
    from 1(2) False obtain e where e: "p (take 32 texts) = Inl e"
      by (auto simp: batches_Cons)
    from 1(2) False have "\<forall>b \<in> set (batches (drop 32 texts)). \<exists>e. p b = Inl e"
      by (simp add: batches_Cons)
    then have rest: "classify_batches p (drop 32 texts)
                       = replicate (length (drop 32 texts)) default_result"
      by (rule 1(1)[OF False])
    have "classify_batches p texts
            = map (\<lambda>_. default_result) (take 32 texts) @ classify_batches p (drop 32 texts)"
      using False e by (subst classify_batches.simps) (simp add: Let_def)
    also have "\<dots> = replicate (length (take 32 texts)) default_result
              @ replicate (length (drop 32 texts)) default_result"
      unfolding rest by (simp only: map_replicate_const)
    also have "\<dots> = replicate (length texts) default_result"
      by (simp only: replicate_add[symmetric] length_append[symmetric] append_take_drop_id)
    finally show ?thesis .
  qed
qed

lemma classify_first_batch:
  assumes "texts \<noteq> []"
  shows "(\<forall>e. p (take 32 texts) = Inl e \<longrightarrow>
            classify_sentiment_batch texts (Some p)
              = replicate (length (take 32 texts)) default_result
                @ classify_sentiment_batch (drop 32 texts) (Some p))
       \<and> (\<forall>batch_predictions. p (take 32 texts) = Inr batch_predictions \<longrightarrow>
            classify_sentiment_batch texts (Some p)
              = map prediction_result batch_predictions
                @ classify_sentiment_batch (drop 32 texts) (Some p))"
proof -
  have step: "classify_batches p texts
        = (case p (take 32 texts) of
             Inr batch_predictions \<Rightarrow> map prediction_result batch_predictions
           | Inl e \<Rightarrow> map (\<lambda>_. default_result) (take 32 texts))
          @ classify_batches p (drop 32 texts)"
    using assms by (subst classify_batches.simps) (simp add: Let_def)
  show ?thesis
    unfolding classify_sentiment_batch_def option.case step
    by (cases "p (take 32 texts)") (simp_all only: sum.case sum.inject sum.distinct map_replicate_const simp_thms)
qed

lemma batches_nth:
  "i < length (batches texts) \<Longrightarrow> batches texts ! i = take 32 (drop (32 * i) texts)"
proof (induction i arbitrary: texts)
  case 0
  then have "texts \<noteq> []" by (auto simp: batches_Nil)
  then show ?case by (simp add: batches_Cons)
next
  case (Suc i)
  then have ne: "texts \<noteq> []" by (auto simp: batches_Nil)
  with Suc.prems have "i < length (batches (drop 32 texts))" by (simp add: batches_Cons)
  from Suc.IH[OF this] ne show ?case by (simp add: batches_Cons add.commute)
qed

text \<open>
  C3, as amended. The classifier hands the texts to the pipeline in batches of
  32, the \<open>i\<close>-th batch being \<^verbatim>\<open>texts[32 * i : 32 * i + 32]\<close>, and its results
  are those of the batches, in order: a batch whose pipeline call returns
  predictions contributes the result of each prediction, and a batch whose
  pipeline call raises contributes the default result once for each of its
  texts, so that a run in which every call raises gives the default result for
  every text. The result of a prediction has the tag \<^verbatim>\<open>positive\<close> exactly when
  its positive score is greater than its negative one and \<^verbatim>\<open>negative\<close>
  otherwise; a prediction with the raw score 0.5 and the label \<^verbatim>\<open>POSITIVE\<close>
  or \<^verbatim>\<open>NEGATIVE\<close> has both scores 0.5 and the tag \<^verbatim>\<open>negative\<close>. The default
  result has the tag \<^verbatim>\<open>positive\<close>, the confidence 0.5 and both scores 0.5.
\<close>

theorem tag_rule:
  "classify_sentiment_batch texts (Some p)
     = concat (map (\<lambda>batch_texts. case p batch_texts of
                       Inr batch_predictions \<Rightarrow> map prediction_result batch_predictions
                     | Inl e \<Rightarrow> replicate (length batch_texts) default_result)
                 (batches texts))
   \<and> concat (batches texts) = texts
   \<and> (\<forall>b \<in> set (batches texts). b \<noteq> [] \<and> length b \<le> 32)
   \<and> (\<forall>i < length (batches texts). batches texts ! i = take 32 (drop (32 * i) texts))
   \<and> (texts \<noteq> [] \<longrightarrow>
        (\<forall>e. p (take 32 texts) = Inl e \<longrightarrow>
            classify_sentiment_batch texts (Some p)
              = replicate (length (take 32 texts)) default_result
                @ classify_sentiment_batch (drop 32 texts) (Some p))
      \<and> (\<forall>batch_predictions. p (take 32 texts) = Inr batch_predictions \<longrightarrow>
            classify_sentiment_batch texts (Some p)
              = map prediction_result batch_predictions
                @ classify_sentiment_batch (drop 32 texts) (Some p)))
   \<and> ((\<forall>b \<in> set (batches texts). \<exists>e. p b = Inl e) \<longrightarrow>
        classify_sentiment_batch texts (Some p) = replicate (length texts) default_result)
   \<and> (result_sentiment (prediction_result q) = asc ''positive'')
        = (negative (result_scores (prediction_result q))
             < positive (result_scores (prediction_result q)))
   \<and> (result_sentiment (prediction_result q) = asc ''negative'')
        = (\<not> negative (result_scores (prediction_result q))
               < positive (result_scores (prediction_result q)))
   \<and> (\<forall>r \<in> set (classify_sentiment_batch texts sentiment_pipeline).
       r = default_result
     \<or> ((result_sentiment r = asc ''positive'')
            = (negative (result_scores r) < positive (result_scores r))
        \<and> (result_sentiment r = asc ''negative'')
            = (\<not> negative (result_scores r) < positive (result_scores r))))
   \<and> (l = asc ''POSITIVE'' \<or> l = asc ''NEGATIVE'' \<longrightarrow>
        prediction_result \<lparr>label = l, score = 1 / 2\<rparr>
          = \<lparr>result_sentiment = asc ''negative'', result_confidence = 1 / 2,
             result_scores = \<lparr>positive = 1 / 2, negative = 1 / 2\<rparr>\<rparr>)
   \<and> default_result
          = \<lparr>result_sentiment = asc ''positive'', result_confidence = 1 / 2,
             result_scores = \<lparr>positive = 1 / 2, negative = 1 / 2\<rparr>\<rparr>"
proof -
  have h: "fsub 1 (1 / 2) = 1 / 2" using fl_half by (simp add: fsub_def)
  have a: "classify_sentiment_batch texts (Some p)
     = concat (map (\<lambda>batch_texts. case p batch_texts of
                       Inr batch_predictions \<Rightarrow> map prediction_result batch_predictions
                     | Inl e \<Rightarrow> replicate (length batch_texts) default_result)
                 (batches texts))"
    by (simp only: classify_sentiment_batch_def option.case classify_batches_concat)
  have b: "concat (batches texts) = texts" by (rule concat_batches)
  have c: "\<forall>b \<in> set (batches texts). b \<noteq> [] \<and> length b \<le> 32"
    using batches_sizes by blast
  have n: "\<forall>i < length (batches texts). batches texts ! i = take 32 (drop (32 * i) texts)"
    using batches_nth by blast
  have f: "texts \<noteq> [] \<longrightarrow>
        (\<forall>e. p (take 32 texts) = Inl e \<longrightarrow>
            classify_sentiment_batch texts (Some p)
              = replicate (length (take 32 texts)) default_result
                @ classify_sentiment_batch (drop 32 texts) (Some p))
      \<and> (\<forall>batch_predictions. p (take 32 texts) = Inr batch_predictions \<longrightarrow>
            classify_sentiment_batch texts (Some p)
              = map prediction_result batch_predictions
                @ classify_sentiment_batch (drop 32 texts) (Some p))"
    by (rule impI) (rule classify_first_batch)
  have d: "(\<forall>b \<in> set (batches texts). \<exists>e. p b = Inl e) \<longrightarrow>
        classify_sentiment_batch texts (Some p) = replicate (length texts) default_result"
    unfolding classify_sentiment_batch_def option.case
    by (rule impI) (rule all_batches_fail)
  have t: "(result_sentiment (prediction_result q) = asc ''positive'')
        = (negative (result_scores (prediction_result q))
             < positive (result_scores (prediction_result q)))
   \<and> (result_sentiment (prediction_result q) = asc ''negative'')
        = (\<not> negative (result_scores (prediction_result q))
               < positive (result_scores (prediction_result q)))"
    by (rule prediction_result_tag)
  have 1: "\<forall>r \<in> set (classify_sentiment_batch texts sentiment_pipeline).
       r = default_result
     \<or> ((result_sentiment r = asc ''positive'')
            = (negative (result_scores r) < positive (result_scores r))
        \<and> (result_sentiment r = asc ''negative'')
            = (\<not> negative (result_scores r) < positive (result_scores r)))"
  proof
    fix r assume "r \<in> set (classify_sentiment_batch texts sentiment_pipeline)"
    then obtain p' where "r \<in> set (classify_batches p' texts)"
      by (cases sentiment_pipeline) (auto simp: classify_sentiment_batch_def)
    from classify_batches_results[OF this] show "r = default_result
     \<or> ((result_sentiment r = asc ''positive'')
            = (negative (result_scores r) < positive (result_scores r))
        \<and> (result_sentiment r = asc ''negative'')
            = (\<not> negative (result_scores r) < positive (result_scores r)))"
      using prediction_result_tag by blast
  qed
  have 2: "l = asc ''POSITIVE'' \<or> l = asc ''NEGATIVE'' \<longrightarrow>
        prediction_result \<lparr>label = l, score = 1 / 2\<rparr>
          = \<lparr>result_sentiment = asc ''negative'', result_confidence = 1 / 2,
             result_scores = \<lparr>positive = 1 / 2, negative = 1 / 2\<rparr>\<rparr>"
    by (auto simp: prediction_result_def map_sentiment_label_def h Let_def)
  have 3: "default_result
          = \<lparr>result_sentiment = asc ''positive'', result_confidence = 1 / 2,
             result_scores = \<lparr>positive = 1 / 2, negative = 1 / 2\<rparr>\<rparr>"
    by (simp add: default_result_def fl_half)
  from a b c n f d t[THEN conjunct1] t[THEN conjunct2] 1 2 3 show ?thesis
    by (intro conjI) assumption+
qed

lemma classify_one_batch:
  "texts \<noteq> [] \<Longrightarrow> length texts \<le> 32 \<Longrightarrow>
   classify_batches p texts =
     (case p texts of
        Inr batch_predictions \<Rightarrow> map prediction_result batch_predictions
      | Inl e \<Rightarrow> map (\<lambda>_. default_result) texts)"
  by (subst classify_batches.simps, subst classify_batches.simps) (simp add: Let_def)

theorem tag_rule_witness:
  "classify_sentiment_batch [asc ''good one'', asc ''so so''] (Some example_pipeline)
     = [\<lparr>result_sentiment = asc ''positive'', result_confidence = 3 / 4,
         result_scores = \<lparr>positive = 3 / 4, negative = 1 / 4\<rparr>\<rparr>,
        \<lparr>result_sentiment = asc ''negative'', result_confidence = 1 / 2,
         result_scores = \<lparr>positive = 1 / 2, negative = 1 / 2\<rparr>\<rparr>]
   \<and> classify_sentiment_batch [asc ''good one'', asc ''so so''] (Some failing_pipeline)
     = [\<lparr>result_sentiment = asc ''positive'', result_confidence = 1 / 2,
         result_scores = \<lparr>positive = 1 / 2, negative = 1 / 2\<rparr>\<rparr>,
        \<lparr>result_sentiment = asc ''positive'', result_confidence = 1 / 2,
         result_scores = \<lparr>positive = 1 / 2, negative = 1 / 2\<rparr>\<rparr>]"
proof -
  let ?texts = "[asc ''good one'', asc ''so so'']"
  have q: "fsub 1 (3 / 4) = 1 / 4" using fl_quarter by (simp add: fsub_def)
  have b: "batches ?texts = [?texts]" by (rule batches_short) simp_all
  have f: "\<forall>b \<in> set (batches ?texts). \<exists>e. failing_pipeline b = Inl e"
    by (simp add: failing_pipeline_def)
  note r = tag_rule[of ?texts _ _ "Some example_pipeline" "asc ''NEGATIVE''"]
  note c2 = conjunct2
  have e: "prediction_result \<lparr>label = asc ''NEGATIVE'', score = 1 / 2\<rparr>
          = \<lparr>result_sentiment = asc ''negative'', result_confidence = 1 / 2,
             result_scores = \<lparr>positive = 1 / 2, negative = 1 / 2\<rparr>\<rparr>"
    using r[of example_pipeline, THEN c2, THEN c2, THEN c2, THEN c2, THEN c2, THEN c2, THEN c2,
        THEN c2, THEN c2, THEN conjunct1] by simp
  have d: "default_result
          = \<lparr>result_sentiment = asc ''positive'', result_confidence = 1 / 2,
             result_scores = \<lparr>positive = 1 / 2, negative = 1 / 2\<rparr>\<rparr>"
    by (rule r[of example_pipeline, THEN c2, THEN c2, THEN c2, THEN c2, THEN c2, THEN c2,
        THEN c2, THEN c2, THEN c2, THEN c2])
  have g: "prediction_result \<lparr>label = asc ''POSITIVE'', score = 3 / 4\<rparr>
          = \<lparr>result_sentiment = asc ''positive'', result_confidence = 3 / 4,
             result_scores = \<lparr>positive = 3 / 4, negative = 1 / 4\<rparr>\<rparr>"
    by (simp add: prediction_result_def map_sentiment_label_def q Let_def)
  have 1: "classify_sentiment_batch ?texts (Some example_pipeline)
     = [\<lparr>result_sentiment = asc ''positive'', result_confidence = 3 / 4,
         result_scores = \<lparr>positive = 3 / 4, negative = 1 / 4\<rparr>\<rparr>,
        \<lparr>result_sentiment = asc ''negative'', result_confidence = 1 / 2,
         result_scores = \<lparr>positive = 1 / 2, negative = 1 / 2\<rparr>\<rparr>]"
    unfolding r[of example_pipeline, THEN conjunct1] b
    by (simp add: example_pipeline_def e g)
  have "classify_sentiment_batch ?texts (Some failing_pipeline)
          = replicate (length ?texts) default_result"
    using r[of failing_pipeline, THEN c2, THEN c2, THEN c2, THEN c2, THEN c2, THEN conjunct1] f
    by simp
  then have 2: "classify_sentiment_batch ?texts (Some failing_pipeline)
     = [\<lparr>result_sentiment = asc ''positive'', result_confidence = 1 / 2,
         result_scores = \<lparr>positive = 1 / 2, negative = 1 / 2\<rparr>\<rparr>,
        \<lparr>result_sentiment = asc ''positive'', result_confidence = 1 / 2,
         result_scores = \<lparr>positive = 1 / 2, negative = 1 / 2\<rparr>\<rparr>]"
    by (simp add: d numeral_2_eq_2)
  from 1 2 show ?thesis by simp
qed

text \<open>
  C3 as stated fails on a batch whose pipeline call raises: the tag of the
  result is \<^verbatim>\<open>positive\<close> although the positive score is not greater than the
  negative one.
\<close>

theorem failed_batch_tag_counterexample:
  "result_sentiment (hd (classify_sentiment_batch [asc ''what a video''] (Some failing_pipeline)))
     = asc ''positive''
   \<and> \<not> negative (result_scores
            (hd (classify_sentiment_batch [asc ''what a video''] (Some failing_pipeline))))
       < positive (result_scores
            (hd (classify_sentiment_batch [asc ''what a video''] (Some failing_pipeline))))"
  by (simp add: classify_sentiment_batch_def classify_one_batch failing_pipeline_def
      default_result_def)

lemma load_fails:
  assumes "\<forall>attempt \<in> {1, 2, 3}. \<exists>e. loader attempt = Inl e"
  shows "load_sentiment_model loader = None"
proof -
  from assms obtain e1 e2 e3 where "loader 1 = Inl e1" "loader 2 = Inl e2" "loader 3 = Inl e3"
    by auto
  moreover have "[1 ..< 3 + 1] = [1, 2, 3 :: nat]" by (simp add: upt_rec)
  ultimately show ?thesis by (simp add: load_sentiment_model_def)
qed

text \<open>
  C10. When each of the three attempts to load the model raises, the classifier
  returns the sequence it was given: the same comments in the same order, none
  with a sentiment, a confidence or scores added.
\<close>

theorem model_unavailable_passthrough:
  assumes "\<forall>attempt \<in> {1, 2, 3}. \<exists>e. loader attempt = Inl e"
  shows "analyze_sentiment loader comments = comments"
  using load_fails[OF assms] by (simp add: analyze_sentiment_def)

theorem model_unavailable_passthrough_witness:
  "analyze_sentiment failing_loader
     [fetched (asc ''Ann'') (asc ''nice''), fetched (asc ''Bob'') (asc ''too long'')]
   = [fetched (asc ''Ann'') (asc ''nice''), fetched (asc ''Bob'') (asc ''too long'')]"
proof -
  have "\<forall>attempt \<in> {1, 2, 3}. \<exists>e. failing_loader attempt = Inl e"
    by (simp add: failing_loader_def)
  then show ?thesis by (rule model_unavailable_passthrough)
qed

section \<open>The fetcher\<close>



















section \<open>The summariser\<close>

lemma asc_nonempty: "asc (c # cs) \<noteq> []"
  by (simp add: asc_def)

lemma summarize_locally_nonempty: "summarize_locally lower comments \<noteq> []"
proof (cases "comments = []")
  case True
  then show ?thesis by (simp add: summarize_locally_def asc_def)
next
  case False
  show ?thesis
  proof (cases "count_sentiments comments \<lparr>positive_count = 0, negative_count = 0, neutral_count = 0\<rparr>")
    case (Inl e)
    with False show ?thesis by (simp add: summarize_locally_def asc_def)
  next
    case (Inr counts)
    have "local_summary lower comments counts \<noteq> []"
      unfolding local_summary_def Let_def by (simp add: asc_def)
    with False Inr show ?thesis by (simp add: summarize_locally_def)
  qed
qed

lemma generate_summary_nonempty: "generate_summary provider lower comments k \<noteq> []"
  using summarize_locally_nonempty[of lower comments]
  by (auto simp: generate_summary_def asc_def split: option.splits)

text \<open>
  C7. For a non-empty sequence of comments, when the LLM summary call made with
  the credential in use fails or gives an empty result, the summariser returns
  the local summary, which is never the empty string. The call fails when
  building the client raises, or when the request that is sent for the
  meaningful comments raises; its result is empty when the answer to that
  request is empty after stripping. The summariser never returns the empty
  string in any case, and it is total: the exceptions of the provider and of
  the local summary are branches that return a string.
\<close>

theorem summary_fallback:
  assumes "comments \<noteq> []"
    and "(\<exists>e. provider (strip (the groq_api_key)) = Inl e)
         \<or> (\<exists>client. provider (strip (the groq_api_key)) = Inr client
                \<and> comments_text comments \<noteq> []
                \<and> ((\<exists>e. client (summary_request comments) = Inl e)
                   \<or> (\<exists>content. client (summary_request comments) = Inr content
                                  \<and> strip content = [])))"
  shows "generate_summary provider lower comments groq_api_key = summarize_locally lower comments
       \<and> summarize_locally lower comments \<noteq> []
       \<and> generate_summary provider lower comments groq_api_key \<noteq> []"
proof -
  have g: "summarize_with_groq provider comments (strip (the groq_api_key)) = None
      \<or> summarize_with_groq provider comments (strip (the groq_api_key)) = Some []"
    using assms(2) by (auto simp: summarize_with_groq_def)
  have "generate_summary provider lower comments groq_api_key = summarize_locally lower comments"
    using assms(1) g by (auto simp: generate_summary_def)
  then show ?thesis using summarize_locally_nonempty[of lower comments] by simp
qed

lemma fl_fifty: "fl 50 = 50"
proof -
  have "ilog2 50 = 5" by (rule ilog2_eqI) simp_all
  then show ?thesis by (simp add: fl_def Let_def round_half_even_numeral power_int_minus)
qed

lemma half_percentage: "fmul (fdiv 1 2) 100 = 50"
  by (simp add: fmul_def fdiv_def fl_half fl_fifty)

lemma format_fifty: "format_1f 50 = asc ''50.0''"
  by (simp add: format_1f_def round_half_even_numeral asc_def)

lemma example_local_summary:
  "summarize_locally ascii_lower
     [analysed (asc ''Ann'') (asc ''Really great tutorial'') (asc ''really great tutorial'') (asc ''positive''),
      analysed (asc ''Bob'') (asc ''The sound is terrible'') (asc ''sound terrible'') (asc ''negative'')]
   = asc ''Analysis of 2 comments shows a predominantly positive sentiment (50.0%). The comments contain 1 positive, 1 negative, and 0 neutral responses.''"
proof -
  have pn: "asc ''negative'' \<noteq> asc ''positive''" by (simp add: asc_def)
  show ?thesis
    by (simp add: summarize_locally_def analysed_def dict_get_def pn local_summary_def Let_def
        max_by_def half_percentage format_fifty)
       (simp add: word_frequencies_def ascii_lower_def is_space_def asc_def)
qed

theorem summary_fallback_witness:
  "generate_summary rejecting_llm ascii_lower
     [analysed (asc ''Ann'') (asc ''Really great tutorial'') (asc ''really great tutorial'') (asc ''positive''),
      analysed (asc ''Bob'') (asc ''The sound is terrible'') (asc ''sound terrible'') (asc ''negative'')]
     (Some (asc ''gsk_example''))
   = asc ''Analysis of 2 comments shows a predominantly positive sentiment (50.0%). The comments contain 1 positive, 1 negative, and 0 neutral responses.''"
proof -
  let ?cs = "[analysed (asc ''Ann'') (asc ''Really great tutorial'') (asc ''really great tutorial'') (asc ''positive''),
      analysed (asc ''Bob'') (asc ''The sound is terrible'') (asc ''sound terrible'') (asc ''negative'')]"
  have 1: "?cs \<noteq> []" by simp
  have 2: "comments_text ?cs \<noteq> []"
    by (simp add: comments_text_def analysed_def dict_get_def strip_def is_space_def asc_def)
  have k: "strip (the (Some (asc ''gsk_example''))) = asc ''gsk_example''"
    by (simp add: strip_def is_space_def asc_def)
  have 3: "(\<exists>e. rejecting_llm (strip (the (Some (asc ''gsk_example'')))) = Inl e)
         \<or> (\<exists>client. rejecting_llm (strip (the (Some (asc ''gsk_example'')))) = Inr client
                \<and> comments_text ?cs \<noteq> []
                \<and> ((\<exists>e. client (summary_request ?cs) = Inl e)
                   \<or> (\<exists>content. client (summary_request ?cs) = Inr content
                                  \<and> strip content = [])))"
    unfolding k using 2 by (simp add: rejecting_llm_def)
  from summary_fallback[where provider = rejecting_llm and lower = ascii_lower
      and groq_api_key = "Some (asc ''gsk_example'')", OF 1 3]
  show ?thesis by (simp only: example_local_summary)
qed

section \<open>Copies and writes in place\<close>

lemma alloc_frame:
  "take (length \<sigma>) (fst (alloc \<sigma> cs)) = \<sigma>
   \<and> (\<forall>r \<in> set (snd (alloc \<sigma> cs)). length \<sigma> \<le> r \<and> r < length (fst (alloc \<sigma> cs)))"
  by (simp add: alloc_def)

lemma alloc_values: "map (deref (fst (alloc \<sigma> cs))) (snd (alloc \<sigma> cs)) = cs"
  by (simp add: alloc_def deref_def map_upt_eqI nth_append)

lemma respond_each_st_frame:
  "length (fst (respond_each_st provider lower key rs (\<sigma>, g))) = length \<sigma>
   \<and> (\<forall>r. r \<notin> set rs \<longrightarrow> fst (respond_each_st provider lower key rs (\<sigma>, g)) ! r = \<sigma> ! r)
   \<and> (\<forall>r \<in> set rs. r < length \<sigma> \<longrightarrow>
         (\<exists>t. fst (respond_each_st provider lower key rs (\<sigma>, g)) ! r
                = (\<sigma> ! r)\<lparr>response := Some t\<rparr>))"
proof (induction rs arbitrary: \<sigma> g)
  case Nil
  then show ?case by simp
next
  case (Cons a rs)
  obtain t g' where step: "(if truthy key then generate_ai_response provider lower g (deref \<sigma> a) (the key)
                    else (generate_fallback_response lower (g 0) (deref \<sigma> a), next_rand g)) = (t, g')"
    by (cases "(if truthy key then generate_ai_response provider lower g (deref \<sigma> a) (the key)
                    else (generate_fallback_response lower (g 0) (deref \<sigma> a), next_rand g))")
  let ?\<sigma>1 = "\<sigma>[a := (deref \<sigma> a)\<lparr>response := Some t\<rparr>]"
  let ?out = "fst (respond_each_st provider lower key rs (?\<sigma>1, g'))"
  have unfold: "respond_each_st provider lower key (a # rs) (\<sigma>, g)
                  = respond_each_st provider lower key rs (?\<sigma>1, g')"
    using step by (simp add: Let_def)
  note IH = Cons.IH[of ?\<sigma>1 g']
  have len: "length ?out = length \<sigma>" using IH by simp
  have other: "?out ! r = \<sigma> ! r" if "r \<notin> set (a # rs)" for r
  proof -
    from that have "r \<notin> set rs" "r \<noteq> a" by auto
    with IH have "?out ! r = ?\<sigma>1 ! r" by blast
    with \<open>r \<noteq> a\<close> show ?thesis by simp
  qed
  have inp: "\<exists>t'. ?out ! r = (\<sigma> ! r)\<lparr>response := Some t'\<rparr>"
    if "r \<in> set (a # rs)" "r < length \<sigma>" for r
  proof (cases "r \<in> set rs")
    case True
    with IH that(2) obtain t' where "?out ! r = (?\<sigma>1 ! r)\<lparr>response := Some t'\<rparr>"
      by auto
    then show ?thesis using that(2) by (cases "r = a") (auto simp: deref_def)
  next
    case False
    with that have "r = a" by simp
    from False IH have "?out ! r = ?\<sigma>1 ! r" by blast
    with \<open>r = a\<close> that(2) show ?thesis by (auto simp: deref_def)
  qed
  show ?case unfolding unfold using len other inp by blast
qed

lemma respond_each_st_values:
  assumes "distinct rs" and "\<forall>r \<in> set rs. r < length \<sigma>"
  shows "map (deref (fst (respond_each_st provider lower key rs (\<sigma>, g)))) rs
           = respond_each provider lower key g (map (deref \<sigma>) rs)"
  using assms
proof (induction rs arbitrary: \<sigma> g)
  case Nil
  then show ?case by simp
next
  case (Cons a rs)
  obtain t g' where step: "(if truthy key then generate_ai_response provider lower g (deref \<sigma> a) (the key)
                    else (generate_fallback_response lower (g 0) (deref \<sigma> a), next_rand g)) = (t, g')"
    by (cases "(if truthy key then generate_ai_response provider lower g (deref \<sigma> a) (the key)
                    else (generate_fallback_response lower (g 0) (deref \<sigma> a), next_rand g))")
  let ?\<sigma>1 = "\<sigma>[a := (deref \<sigma> a)\<lparr>response := Some t\<rparr>]"
  let ?out = "fst (respond_each_st provider lower key rs (?\<sigma>1, g'))"
  have unfold: "respond_each_st provider lower key (a # rs) (\<sigma>, g)
                  = respond_each_st provider lower key rs (?\<sigma>1, g')"
    using step by (simp add: Let_def)
  from Cons.prems have a: "a \<notin> set rs" "a < length \<sigma>" and d: "distinct rs"
    and v: "\<forall>r \<in> set rs. r < length ?\<sigma>1" by auto
  have same: "map (deref ?\<sigma>1) rs = map (deref \<sigma>) rs"
    using a(1) by (auto simp: deref_def intro!: nth_list_update_neq)
  have "deref ?out a = ?\<sigma>1 ! a"
    using respond_each_st_frame[of provider lower key rs ?\<sigma>1 g'] a(1) by (simp add: deref_def)
  then have hd: "deref ?out a = (deref \<sigma> a)\<lparr>response := Some t\<rparr>"
    using a(2) by simp
  have "map (deref ?out) rs = respond_each provider lower key g' (map (deref \<sigma>) rs)"
    using Cons.IH[OF d v, of g'] same by simp
  with hd step show ?case unfolding unfold by (simp add: Let_def)
qed

lemma length_combine_results: "length (combine_results cs rs) = length cs"
  by (induction cs rs rule: combine_results.induct) simp_all

lemma analyze_sentiment_length: "length (analyze_sentiment loader comments) = length comments"
  by (auto simp: analyze_sentiment_def length_combine_results Let_def split: option.splits)

lemma analyze_sentiment_st_unloaded:
  "load_sentiment_model loader = None \<Longrightarrow> analyze_sentiment_st loader (\<sigma>, refs) = (\<sigma>, refs)"
  by (simp add: analyze_sentiment_st_def)

lemma analyze_sentiment_st_loaded:
  assumes "load_sentiment_model loader = Some p"
  shows "analyze_sentiment_st loader (\<sigma>, refs)
           = (\<sigma> @ analyze_sentiment loader (map (deref \<sigma>) refs),
              [length \<sigma> ..< length \<sigma> + length refs])"
proof (cases "refs = []")
  case True
  then show ?thesis by (simp add: analyze_sentiment_st_def analyze_sentiment_def)
next
  case False
  with assms show ?thesis
    by (simp add: analyze_sentiment_st_def alloc_def analyze_sentiment_length)
qed

text \<open>
  C2, as amended. The normaliser, the truncation pass and the classifier leave
  every record of the store as it was. The normaliser and the truncation pass
  return references to records they allocated. The classifier, when the model
  is loaded, returns as many references as it was given, all different and all
  to records it allocated; when the model cannot be loaded it returns the list
  it was given and allocates nothing. The response generator returns the list
  it was given; it allocates nothing, leaves every record outside its argument
  as it was, and changes each record of its argument in the field
  \<^verbatim>\<open>response\<close> only.
\<close>

theorem stages_frame:
  "take (length \<sigma>) (fst (preprocess_comments_st env (\<sigma>, refs) a)) = \<sigma>
   \<and> (\<forall>r \<in> set (snd (preprocess_comments_st env (\<sigma>, refs) a)).
         length \<sigma> \<le> r \<and> r < length (fst (preprocess_comments_st env (\<sigma>, refs) a)))
   \<and> (\<forall>out. truncate_long_comments_st (\<sigma>, refs) m = Inr out \<longrightarrow>
          take (length \<sigma>) (fst out) = \<sigma>
        \<and> (\<forall>r \<in> set (snd out). length \<sigma> \<le> r \<and> r < length (fst out)))
   \<and> take (length \<sigma>) (fst (analyze_sentiment_st loader (\<sigma>, refs))) = \<sigma>
   \<and> (load_sentiment_model loader = None \<longrightarrow>
          analyze_sentiment_st loader (\<sigma>, refs) = (\<sigma>, refs))
   \<and> (\<forall>p. load_sentiment_model loader = Some p \<longrightarrow>
          length (snd (analyze_sentiment_st loader (\<sigma>, refs))) = length refs
        \<and> distinct (snd (analyze_sentiment_st loader (\<sigma>, refs)))
        \<and> (\<forall>r \<in> set (snd (analyze_sentiment_st loader (\<sigma>, refs))).
              length \<sigma> \<le> r \<and> r < length (fst (analyze_sentiment_st loader (\<sigma>, refs)))))
   \<and> snd (generate_comment_responses_st provider lower g (\<sigma>, refs) key) = refs
   \<and> length (fst (generate_comment_responses_st provider lower g (\<sigma>, refs) key)) = length \<sigma>
   \<and> (\<forall>r. r \<notin> set refs \<longrightarrow>
          fst (generate_comment_responses_st provider lower g (\<sigma>, refs) key) ! r = \<sigma> ! r)
   \<and> (\<forall>r \<in> set refs. r < length \<sigma> \<longrightarrow>
          (\<exists>t. fst (generate_comment_responses_st provider lower g (\<sigma>, refs) key) ! r
                 = (\<sigma> ! r)\<lparr>response := Some t\<rparr>))"
proof -
  have p1: "take (length \<sigma>) (fst (preprocess_comments_st env (\<sigma>, refs) a)) = \<sigma>"
    using alloc_frame[of \<sigma>] by (simp add: preprocess_comments_st_def)
  have p2: "\<forall>r \<in> set (snd (preprocess_comments_st env (\<sigma>, refs) a)).
         length \<sigma> \<le> r \<and> r < length (fst (preprocess_comments_st env (\<sigma>, refs) a))"
    using alloc_frame[of \<sigma>] by (simp add: preprocess_comments_st_def)
  have t: "\<forall>out. truncate_long_comments_st (\<sigma>, refs) m = Inr out \<longrightarrow>
          take (length \<sigma>) (fst out) = \<sigma>
        \<and> (\<forall>r \<in> set (snd out). length \<sigma> \<le> r \<and> r < length (fst out))"
    by (auto simp: truncate_long_comments_st_def alloc_def split: sum.splits)
  have s1: "take (length \<sigma>) (fst (analyze_sentiment_st loader (\<sigma>, refs))) = \<sigma>"
    by (auto simp: analyze_sentiment_st_def alloc_def split: option.splits)
  have s2: "load_sentiment_model loader = None \<longrightarrow>
          analyze_sentiment_st loader (\<sigma>, refs) = (\<sigma>, refs)"
    using analyze_sentiment_st_unloaded by blast
  have s3: "\<forall>p. load_sentiment_model loader = Some p \<longrightarrow>
          length (snd (analyze_sentiment_st loader (\<sigma>, refs))) = length refs
        \<and> distinct (snd (analyze_sentiment_st loader (\<sigma>, refs)))
        \<and> (\<forall>r \<in> set (snd (analyze_sentiment_st loader (\<sigma>, refs))).
              length \<sigma> \<le> r \<and> r < length (fst (analyze_sentiment_st loader (\<sigma>, refs))))"
  proof (intro allI impI)
    fix p assume "load_sentiment_model loader = Some p"
    from analyze_sentiment_st_loaded[OF this, of \<sigma> refs]
    show "length (snd (analyze_sentiment_st loader (\<sigma>, refs))) = length refs
        \<and> distinct (snd (analyze_sentiment_st loader (\<sigma>, refs)))
        \<and> (\<forall>r \<in> set (snd (analyze_sentiment_st loader (\<sigma>, refs))).
              length \<sigma> \<le> r \<and> r < length (fst (analyze_sentiment_st loader (\<sigma>, refs))))"
      by (simp add: analyze_sentiment_length)
  qed
  have r: "snd (generate_comment_responses_st provider lower g (\<sigma>, refs) key) = refs
   \<and> length (fst (generate_comment_responses_st provider lower g (\<sigma>, refs) key)) = length \<sigma>
   \<and> (\<forall>r. r \<notin> set refs \<longrightarrow>
          fst (generate_comment_responses_st provider lower g (\<sigma>, refs) key) ! r = \<sigma> ! r)
   \<and> (\<forall>r \<in> set refs. r < length \<sigma> \<longrightarrow>
          (\<exists>t. fst (generate_comment_responses_st provider lower g (\<sigma>, refs) key) ! r
                 = (\<sigma> ! r)\<lparr>response := Some t\<rparr>))"
    using respond_each_st_frame[of provider lower key refs \<sigma> g]
    by (simp add: generate_comment_responses_st_def)
  note r1 = r[THEN conjunct1] and r2 = r[THEN conjunct2, THEN conjunct1]
    and r3 = r[THEN conjunct2, THEN conjunct2, THEN conjunct1]
    and r4 = r[THEN conjunct2, THEN conjunct2, THEN conjunct2]
  from p1 p2 t s1 s2 s3 r1 r2 r3 r4 show ?thesis by (intro conjI) assumption+
qed

text \<open>
  The records a stage returns are those of the functions on records; for the
  response generator when no record occurs twice in its argument.
\<close>

lemma stage_values:
  "map (deref (fst (preprocess_comments_st env (\<sigma>, refs) a))) (snd (preprocess_comments_st env (\<sigma>, refs) a))
     = preprocess_comments env (map (deref \<sigma>) refs) a"
  "truncate_long_comments_st (\<sigma>, refs) m = Inr out \<Longrightarrow>
     Inr (map (deref (fst out)) (snd out)) = truncate_long_comments (map (deref \<sigma>) refs) m"
  "map (deref (fst (analyze_sentiment_st loader (\<sigma>, refs)))) (snd (analyze_sentiment_st loader (\<sigma>, refs)))
     = analyze_sentiment loader (map (deref \<sigma>) refs)"
  "distinct refs \<Longrightarrow> \<forall>r \<in> set refs. r < length \<sigma> \<Longrightarrow>
     map (deref (fst (generate_comment_responses_st provider lower g (\<sigma>, refs) key)))
         (snd (generate_comment_responses_st provider lower g (\<sigma>, refs) key))
     = generate_comment_responses provider lower g (map (deref \<sigma>) refs) key"
proof -
  show "map (deref (fst (preprocess_comments_st env (\<sigma>, refs) a))) (snd (preprocess_comments_st env (\<sigma>, refs) a))
     = preprocess_comments env (map (deref \<sigma>) refs) a"
    by (simp add: preprocess_comments_st_def alloc_values)
  show "Inr (map (deref (fst out)) (snd out)) = truncate_long_comments (map (deref \<sigma>) refs) m"
    if "truncate_long_comments_st (\<sigma>, refs) m = Inr out"
    using that alloc_values
    by (auto simp: truncate_long_comments_st_def split: sum.splits)
  show "map (deref (fst (analyze_sentiment_st loader (\<sigma>, refs)))) (snd (analyze_sentiment_st loader (\<sigma>, refs)))
     = analyze_sentiment loader (map (deref \<sigma>) refs)"
    by (auto simp: analyze_sentiment_st_def alloc_values analyze_sentiment_def split: option.splits)
  show "map (deref (fst (generate_comment_responses_st provider lower g (\<sigma>, refs) key)))
         (snd (generate_comment_responses_st provider lower g (\<sigma>, refs) key))
     = generate_comment_responses provider lower g (map (deref \<sigma>) refs) key"
    if "distinct refs" "\<forall>r \<in> set refs. r < length \<sigma>"
    using respond_each_st_values[OF that]
    by (simp add: generate_comment_responses_st_def generate_comment_responses_def)
qed

lemma example_loader_loads: "load_sentiment_model example_loader = Some example_pipeline"
proof -
  have "[1 ..< 3 + 1] = [1, 2, 3 :: nat]" by (simp add: upt_rec)
  then show ?thesis by (simp add: load_sentiment_model_def example_loader_def)
qed

lemma failing_loader_fails: "load_sentiment_model failing_loader = None"
  by (rule load_fails) (simp add: failing_loader_def)

theorem stages_frame_witness:
  "take 1 (fst (preprocess_comments_st example_env
       ([analysed (asc ''Ann'') (asc ''first'') (asc ''first'') (asc ''positive'')], [0]) True))
     = [analysed (asc ''Ann'') (asc ''first'') (asc ''first'') (asc ''positive'')]
   \<and> analyze_sentiment_st failing_loader
       ([analysed (asc ''Ann'') (asc ''first'') (asc ''first'') (asc ''positive'')], [0])
     = ([analysed (asc ''Ann'') (asc ''first'') (asc ''first'') (asc ''positive'')], [0])
   \<and> length (snd (analyze_sentiment_st example_loader
       ([analysed (asc ''Ann'') (asc ''first'') (asc ''first'') (asc ''positive'')], [0]))) = 1
   \<and> 0 \<notin> set (snd (analyze_sentiment_st example_loader
       ([analysed (asc ''Ann'') (asc ''first'') (asc ''first'') (asc ''positive'')], [0])))
   \<and> snd (generate_comment_responses_st failing_llm ascii_lower (\<lambda>i. 0)
       ([analysed (asc ''Ann'') (asc ''first'') (asc ''first'') (asc ''positive'')], [0]) None) = [0]
   \<and> (\<exists>t. fst (generate_comment_responses_st failing_llm ascii_lower (\<lambda>i. 0)
       ([analysed (asc ''Ann'') (asc ''first'') (asc ''first'') (asc ''positive'')], [0]) None) ! 0
         = (analysed (asc ''Ann'') (asc ''first'') (asc ''first'') (asc ''positive''))
             \<lparr>response := Some t\<rparr>)"
proof -
  let ?\<sigma> = "[analysed (asc ''Ann'') (asc ''first'') (asc ''first'') (asc ''positive'')]"
  note f = stages_frame[of ?\<sigma> example_env "[0]" True _ failing_loader failing_llm ascii_lower
      "\<lambda>i. 0" None]
  note l = stages_frame[of ?\<sigma> example_env "[0]" True _ example_loader failing_llm ascii_lower
      "\<lambda>i. 0" None]
  have 1: "take 1 (fst (preprocess_comments_st example_env (?\<sigma>, [0]) True)) = ?\<sigma>"
    using f[THEN conjunct1] by simp
  have 2: "analyze_sentiment_st failing_loader (?\<sigma>, [0]) = (?\<sigma>, [0])"
    using f[THEN conjunct2, THEN conjunct2, THEN conjunct2, THEN conjunct2, THEN conjunct1]
      failing_loader_fails by simp
  from l[THEN conjunct2, THEN conjunct2, THEN conjunct2, THEN conjunct2, THEN conjunct2,
      THEN conjunct1, rule_format, OF example_loader_loads]
  have 3: "length (snd (analyze_sentiment_st example_loader (?\<sigma>, [0]))) = 1"
    and 4: "0 \<notin> set (snd (analyze_sentiment_st example_loader (?\<sigma>, [0])))"
    by auto
  note r = f[THEN conjunct2, THEN conjunct2, THEN conjunct2, THEN conjunct2, THEN conjunct2,
      THEN conjunct2]
  have 5: "snd (generate_comment_responses_st failing_llm ascii_lower (\<lambda>i. 0) (?\<sigma>, [0]) None) = [0]"
    using r[THEN conjunct1] .
  have 6: "\<exists>t. fst (generate_comment_responses_st failing_llm ascii_lower (\<lambda>i. 0) (?\<sigma>, [0]) None) ! 0
         = (?\<sigma> ! 0)\<lparr>response := Some t\<rparr>"
    using r[THEN conjunct2, THEN conjunct2, THEN conjunct2] by simp
  from 1 2 3 4 5 6 show ?thesis by simp
qed

text \<open>
  C2 as stated fails on the response generator: the record it is given has no
  response before the call and has one after it.
\<close>

theorem response_written_in_place_counterexample:
  "response (deref [analysed (asc ''Ann'') (asc ''first'') (asc ''first'') (asc ''positive'')] 0) = None
   \<and> response (deref (fst (generate_comment_responses_st failing_llm ascii_lower (\<lambda>i. 0)
         ([analysed (asc ''Ann'') (asc ''first'') (asc ''first'') (asc ''positive'')], [0]) None)) 0)
       = Some (asc ''Thanks Ann! '' @ [0x1F60A])"
proof -
  have cue1: "\<not> any_word_in [asc ''thank'', asc ''thanks'', asc ''great'', asc ''awesome'',
                           asc ''love'', asc ''amazing''] (ascii_lower (asc ''first''))"
    by (simp add: any_word_in_def ascii_lower_def asc_def sublist_Cons_right prefix_code)
  have cue2: "\<not> any_word_in [asc ''good'', asc ''nice'', asc ''well done'',
                                asc ''excellent''] (ascii_lower (asc ''first''))"
    by (simp add: any_word_in_def ascii_lower_def asc_def sublist_Cons_right prefix_code)
  have "generate_fallback_response ascii_lower 0
          (analysed (asc ''Ann'') (asc ''first'') (asc ''first'') (asc ''positive''))
        = asc ''Thanks Ann! '' @ [0x1F60A]"
    by (simp add: generate_fallback_response_def fallback_responses_def analysed_def dict_get_def
        cue1 cue2 support_templates_def random_choice_def Let_def)
       (simp add: asc_def)
  then show ?thesis
    by (simp add: generate_comment_responses_st_def deref_def truthy_def Let_def)
       (simp add: analysed_def)
qed

end
